theory Spec2Isabelle
  imports
    Complex_Main
    "HOL-Library.Word"
    "HOL-Library.Char_ord"
    "HOL-Library.List_Lexorder"
    "HOL-Library.Monad_Syntax"
begin

section \<open>The JavaScript values and library functions the plugin uses\<close>

text \<open>
  The Guardian Angel plugin (\<^verbatim>\<open>skills/guardian-angel/plugin\<close>) is TypeScript running on
  Node. Its functions are embedded as HOL functions; the parts of the JavaScript language
  and library that decide their results are embedded with them:

  \<^item> a string is a list of code units; the model has the code units below 256
    (\<^typ>\<open>char\<close>), which \<^verbatim>\<open>toLowerCase\<close> maps as Unicode does on that range;
  \<^item> a tool-call parameter (\<^verbatim>\<open>unknown\<close> in the source) is a JSON value; a number is an
    integer, printed in decimal as \<^verbatim>\<open>Number.prototype.toString\<close> prints the integers below
    \<open>10\<^sup>2\<^sup>1\<close>;
  \<^item> an object is an association list in which every key occurs once; a property read
    that finds no own property continues in \<^verbatim>\<open>Object.prototype\<close>, as it does in
    JavaScript;
  \<^item> a function that can throw returns \<open>'a option\<close>: \<open>None\<close> is the \<^verbatim>\<open>TypeError\<close>
    (the only exception these functions can raise), \<open>Some v\<close> the value returned;
  \<^item> SHA-256 and the regular-expression engine are the runtime's and are parameters of
    the functions that call them; every theorem holds for every such parameter. So are
    the clock, the random bytes and the outcome of a file write.
\<close>

datatype json =
    JNull
  | JBool bool
  | JNumber int
  | JString string
  | JArray "json list"
  | JObject "(string \<times> json) list"

type_synonym object = "(string \<times> json) list"

text \<open>\<^verbatim>\<open>String.prototype.toLowerCase\<close> on the code units below 256.\<close>

definition upper_case_letters :: string where
  "upper_case_letters = ''ABCDEFGHIJKLMNOPQRSTUVWXYZ'' @
     [CHR 0xC0, CHR 0xC1, CHR 0xC2, CHR 0xC3, CHR 0xC4, CHR 0xC5, CHR 0xC6, CHR 0xC7,
      CHR 0xC8, CHR 0xC9, CHR 0xCA, CHR 0xCB, CHR 0xCC, CHR 0xCD, CHR 0xCE, CHR 0xCF,
      CHR 0xD0, CHR 0xD1, CHR 0xD2, CHR 0xD3, CHR 0xD4, CHR 0xD5, CHR 0xD6,
      CHR 0xD8, CHR 0xD9, CHR 0xDA, CHR 0xDB, CHR 0xDC, CHR 0xDD, CHR 0xDE]"

definition lower_case_letters :: string where
  "lower_case_letters = ''abcdefghijklmnopqrstuvwxyz'' @
     [CHR 0xE0, CHR 0xE1, CHR 0xE2, CHR 0xE3, CHR 0xE4, CHR 0xE5, CHR 0xE6, CHR 0xE7,
      CHR 0xE8, CHR 0xE9, CHR 0xEA, CHR 0xEB, CHR 0xEC, CHR 0xED, CHR 0xEE, CHR 0xEF,
      CHR 0xF0, CHR 0xF1, CHR 0xF2, CHR 0xF3, CHR 0xF4, CHR 0xF5, CHR 0xF6,
      CHR 0xF8, CHR 0xF9, CHR 0xFA, CHR 0xFB, CHR 0xFC, CHR 0xFD, CHR 0xFE]"

definition toLowerCase :: "string \<Rightarrow> string" where
  "toLowerCase s =
     map (\<lambda>c. case map_of (zip upper_case_letters lower_case_letters) c of
                 Some l \<Rightarrow> l
               | None \<Rightarrow> c) s"

text \<open>\<^verbatim>\<open>String.prototype.includes\<close>: the pattern occurs as a contiguous run.\<close>

fun startsWith :: "string \<Rightarrow> string \<Rightarrow> bool" where
  "startsWith s [] = True"
| "startsWith [] (p # ps) = False"
| "startsWith (c # cs) (p # ps) = (c = p \<and> startsWith cs ps)"

fun js_includes :: "string \<Rightarrow> string \<Rightarrow> bool" where
  "js_includes [] p = (p = [])"
| "js_includes (c # cs) p = (startsWith (c # cs) p \<or> js_includes cs p)"

text \<open>
  \<^verbatim>\<open>String.prototype.trim\<close>: the white space and line terminators below 256 are
  TAB, LF, VT, FF, CR, SP and NBSP.
\<close>

definition isWhiteSpace :: "char \<Rightarrow> bool" where
  "isWhiteSpace c =
     (c \<in> set [CHR 0x09, CHR 0x0A, CHR 0x0B, CHR 0x0C, CHR 0x0D, CHR 0x20, CHR 0xA0])"

definition trim :: "string \<Rightarrow> string" where
  "trim s = rev (dropWhile isWhiteSpace (rev (dropWhile isWhiteSpace s)))"

text \<open>\<^verbatim>\<open>Array.prototype.join\<close> on strings.\<close>

fun join :: "string \<Rightarrow> string list \<Rightarrow> string" where
  "join sep [] = []"
| "join sep [x] = x"
| "join sep (x # y # ys) = x @ sep @ join sep (y # ys)"

text \<open>\<^verbatim>\<open>Number.prototype.toString\<close> of an integer.\<close>

fun Number_toString_nat :: "nat \<Rightarrow> string" where
  "Number_toString_nat n =
     (if n < 10 then [''0123456789'' ! n]
      else Number_toString_nat (n div 10) @ [''0123456789'' ! (n mod 10)])"

declare Number_toString_nat.simps [simp del]

definition Number_toString :: "int \<Rightarrow> string" where
  "Number_toString i =
     (if i < 0 then ''-'' @ Number_toString_nat (nat (- i)) else Number_toString_nat (nat i))"

text \<open>
  Truthiness (\<^verbatim>\<open>ToBoolean\<close>): \<^verbatim>\<open>null\<close>, \<^verbatim>\<open>false\<close>, \<^verbatim>\<open>0\<close> and the empty string are falsy,
  every array and object is truthy. A property that is absent reads as \<^verbatim>\<open>undefined\<close>,
  which is falsy: \<open>None\<close> below.
\<close>

fun ToBoolean :: "json \<Rightarrow> bool" where
  "ToBoolean JNull = False"
| "ToBoolean (JBool b) = b"
| "ToBoolean (JNumber n) = (n \<noteq> 0)"
| "ToBoolean (JString s) = (s \<noteq> [])"
| "ToBoolean (JArray xs) = True"
| "ToBoolean (JObject kvs) = True"

text \<open>
  \<^verbatim>\<open>String(v)\<close>. An array is joined with commas, \<^verbatim>\<open>null\<close> elements printing as the empty
  string. An object prints through \<^verbatim>\<open>Object.prototype.toString\<close> as
  \<^verbatim>\<open>[object Object]\<close>; when it has an own property \<^verbatim>\<open>toString\<close> (which in a JSON value is
  never a function) the conversion finds no callable \<^verbatim>\<open>toString\<close> and no \<^verbatim>\<open>valueOf\<close>
  that yields a primitive, and throws \<^verbatim>\<open>TypeError\<close>.
\<close>

fun js_String :: "json \<Rightarrow> string option" where
  "js_String JNull = Some ''null''"
| "js_String (JBool b) = Some (if b then ''true'' else ''false'')"
| "js_String (JNumber n) = Some (Number_toString n)"
| "js_String (JString s) = Some s"
| "js_String (JArray xs) =
     map_option (join '','')
       (those (map (\<lambda>x. if x = JNull then Some [] else js_String x) xs))"
| "js_String (JObject kvs) =
     (if ''toString'' \<in> set (map fst kvs) then None else Some ''[object Object]'')"

text \<open>\<^verbatim>\<open>String(v || "")\<close> for a property read \<open>v\<close>.\<close>

definition String_or_empty :: "json option \<Rightarrow> string option" where
  "String_or_empty v =
     (case v of
        None \<Rightarrow> Some []
      | Some x \<Rightarrow> if ToBoolean x then js_String x else Some [])"

text \<open>
  The names of the members of \<^verbatim>\<open>Object.prototype\<close>. All are functions but
  \<^verbatim>\<open>__proto__\<close>, an accessor that yields the prototype: \<^verbatim>\<open>Object.prototype\<close> for a plain
  object, \<^verbatim>\<open>null\<close> for \<^verbatim>\<open>Object.prototype\<close> itself.
\<close>

definition Object_prototype_names :: "string list" where
  "Object_prototype_names =
     [''constructor'', ''__defineGetter__'', ''__defineSetter__'', ''hasOwnProperty'',
      ''__lookupGetter__'', ''__lookupSetter__'', ''isPrototypeOf'',
      ''propertyIsEnumerable'', ''toString'', ''valueOf'', ''__proto__'',
      ''toLocaleString'']"

subsection \<open>\<^verbatim>\<open>JSON.stringify(value, replacer)\<close> with an array replacer\<close>

text \<open>
  \<^verbatim>\<open>QuoteJSONString\<close>: the string in double quotes, with the quote, the backslash and the
  control characters escaped.
\<close>

definition hex_digit :: "nat \<Rightarrow> char" where
  "hex_digit n = ''0123456789abcdef'' ! (n mod 16)"

text \<open>
  The \<^verbatim>\<open>"hex"\<close> encoding of a buffer (\<^verbatim>\<open>buf.toString("hex")\<close>, \<^verbatim>\<open>digest("hex")\<close>): two
  digits a byte, \<open>len\<close> digits of the number the bytes spell.
\<close>

fun toString_hex :: "nat \<Rightarrow> nat \<Rightarrow> string" where
  "toString_hex 0 v = []"
| "toString_hex (Suc len) v = toString_hex len (v div 16) @ [hex_digit v]"

definition quote_char :: "char \<Rightarrow> string" where
  "quote_char c =
     (if c = CHR 0x08 then [CHR 0x5C, CHR ''b'']
      else if c = CHR 0x09 then [CHR 0x5C, CHR ''t'']
      else if c = CHR 0x0A then [CHR 0x5C, CHR ''n'']
      else if c = CHR 0x0C then [CHR 0x5C, CHR ''f'']
      else if c = CHR 0x0D then [CHR 0x5C, CHR ''r'']
      else if c = CHR 0x22 then [CHR 0x5C, CHR 0x22]
      else if c = CHR 0x5C then [CHR 0x5C, CHR 0x5C]
      else if (of_char c :: nat) < 32
        then [CHR 0x5C, CHR ''u'', CHR ''0'', CHR ''0'',
              hex_digit (of_char c div 16), hex_digit (of_char c)]
      else [c])"

definition QuoteJSONString :: "string \<Rightarrow> string" where
  "QuoteJSONString s = [CHR 0x22] @ concat (map quote_char s) @ [CHR 0x22]"

text \<open>
  The property list of an array replacer: its items in order, each once.
\<close>

definition PropertyList :: "string list \<Rightarrow> string list" where
  "PropertyList replacer =
     foldl (\<lambda>pl item. if item \<in> set pl then pl else pl @ [item]) [] replacer"

text \<open>
  \<^verbatim>\<open>SerializeJSONProperty\<close> with the property list \<open>K\<close> of an array replacer and no
  indentation. \<^verbatim>\<open>SerializeJSONObject\<close> walks \<open>K\<close>, not the object's keys, at every level
  of nesting: for each \<open>P\<close> of \<open>K\<close> it reads \<^verbatim>\<open>value[P]\<close> and emits a member when the
  value serialises. A name of \<open>K\<close> that the object lacks reads as \<^verbatim>\<open>undefined\<close> or as a
  function of \<^verbatim>\<open>Object.prototype\<close>, and is left out; \<^verbatim>\<open>__proto__\<close> reads as
  \<^verbatim>\<open>Object.prototype\<close>, an object whose only serialisable property under \<open>K\<close> is its own
  \<^verbatim>\<open>__proto__\<close>, the value \<^verbatim>\<open>null\<close>.
\<close>

fun SerializeJSONProperty :: "string list \<Rightarrow> json \<Rightarrow> string" where
  "SerializeJSONProperty K JNull = ''null''"
| "SerializeJSONProperty K (JBool b) = (if b then ''true'' else ''false'')"
| "SerializeJSONProperty K (JNumber n) = Number_toString n"
| "SerializeJSONProperty K (JString s) = QuoteJSONString s"
| "SerializeJSONProperty K (JArray xs) =
     (if xs = [] then ''[]''
      else ''['' @ join '','' (map (SerializeJSONProperty K) xs) @ '']'')"
| "SerializeJSONProperty K (JObject kvs) =
     (let own = map (\<lambda>(k, v). (k, SerializeJSONProperty K v)) kvs;
          partial = concat (map (\<lambda>P.
            case map_of own P of
              Some strP \<Rightarrow> [QuoteJSONString P @ '':'' @ strP]
            | None \<Rightarrow>
                if P = ''__proto__''
                then [QuoteJSONString P @ '':{'' @ QuoteJSONString P @ '':null}'']
                else []) K)
      in if partial = [] then ''{}'' else ''{'' @ join '','' partial @ ''}'')"

definition JSON_stringify :: "json \<Rightarrow> string list \<Rightarrow> string" where
  "JSON_stringify v replacer = SerializeJSONProperty (PropertyList replacer) v"

definition Object_keys :: "object \<Rightarrow> string list" where
  "Object_keys obj = map fst obj"

section \<open>The evaluator: \<^verbatim>\<open>src/evaluate.ts\<close>\<close>

subsection \<open>Configuration and constants (\<^verbatim>\<open>src/types.ts\<close>, \<^verbatim>\<open>src/constants.ts\<close>)\<close>

text \<open>
  \<^verbatim>\<open>GuardianAngelConfig\<close>: every field is optional, \<open>None\<close> when the configuration does
  not give it. The fields \<^verbatim>\<open>logLevel\<close> and \<^verbatim>\<open>storePath\<close> decide no result below and are
  left out.
\<close>

record GuardianAngelConfig =
  enabled :: "bool option"
  escalationThreshold :: "int option"
  pendingTimeoutMs :: "int option"
  approvalWindowMs :: "int option"
  alwaysBlock :: "string list option"
  neverBlock :: "string list option"

text \<open>The configuration that gives no field.\<close>

definition default_config :: GuardianAngelConfig where
  "default_config =
     \<lparr>enabled = None, escalationThreshold = None, pendingTimeoutMs = None,
      approvalWindowMs = None, alwaysBlock = None, neverBlock = None\<rparr>"

definition DEFAULT_ESCALATION_THRESHOLD :: int where
  "DEFAULT_ESCALATION_THRESHOLD = 36"

definition DEFAULT_PENDING_TIMEOUT_MS :: int where
  "DEFAULT_PENDING_TIMEOUT_MS = 300000"

definition DEFAULT_APPROVAL_WINDOW_MS :: int where
  "DEFAULT_APPROVAL_WINDOW_MS = 30000"

definition INFRASTRUCTURE_TOOLS :: "string list" where
  "INFRASTRUCTURE_TOOLS = [''gateway'', ''exec'', ''Write'', ''Edit'']"

definition EXTERNAL_EFFECT_TOOLS :: "string list" where
  "EXTERNAL_EFFECT_TOOLS = [''message'', ''browser'', ''cron'', ''nodes'', ''tts'']"

definition DEFAULT_NEVER_BLOCK :: "string list" where
  "DEFAULT_NEVER_BLOCK =
     [''memory_search'', ''memory_get'', ''session_status'', ''Read'', ''web_search'',
      ''web_fetch'', ''image'', ''sessions_list'', ''sessions_history'', ''agents_list'']"

subsection \<open>Patterns\<close>

definition IMAGE_GEN_PATTERNS :: "string list" where
  "IMAGE_GEN_PATTERNS =
     [''generate_image.py'', ''nano-banana'', ''openai-image'', ''dall-e'', ''midjourney'',
      ''stable-diffusion'', ''image-gen'']"

text \<open>
  The regular expressions of the source, by name:
  \<^item> \<open>RE_prompt_quoted\<close>: \<^verbatim>\<open>/(?:--prompt|-p)\s+["']([^"']+)["']/i\<close>
  \<^item> \<open>RE_prompt_unquoted\<close>: \<^verbatim>\<open>/(?:--prompt|-p)\s+([^-][^\s]*(?:\s+[^-][^\s]*)*)/i\<close>
  \<^item> \<open>RE_pornography\<close>:
    \<^verbatim>\<open>/\b(nude|naked|porn|pornograph|nsfw|xxx|erotic|sexual(?:ly)?|genitals?)\b/i\<close>
  \<^item> \<open>RE_child_exploitation\<close>:
    \<^verbatim>\<open>/\b(child|minor|underage|kid|teen).{0,20}(nude|naked|sexual|erotic)/i\<close>
  \<^item> \<open>RE_extreme_violence\<close>:
    \<^verbatim>\<open>/\b(gore|gory|dismember|mutilat|torture|brutal.{0,10}kill)\b/i\<close>
  \<^item> \<open>RE_terrorism\<close>: \<^verbatim>\<open>/\b(terrorist|terrorism|bomb.{0,10}(make|build|instruct))\b/i\<close>
  \<^item> \<open>RE_fraud_deception\<close>:
    \<^verbatim>\<open>/\b(deepfake|fake.{0,10}(id|passport|document|evidence))\b/i\<close>
  \<^item> \<open>RE_weapons\<close>: \<^verbatim>\<open>/\b(weapon|gun|rifle|pistol|knife|sword)\b/i\<close>
  \<^item> \<open>RE_graphic\<close>: \<^verbatim>\<open>/\b(blood|bloody|bleeding|wound)\b/i\<close>
  \<^item> \<open>RE_drugs\<close>: \<^verbatim>\<open>/\b(drug|cocaine|heroin|meth)\b/i\<close>

  The engine that matches them is the runtime's: a \<open>regexp_engine\<close> \<open>rx\<close> gives, for a
  pattern and a string, the text of capture group 1 of the first match
  (\<^verbatim>\<open>str.match(re)[1]\<close>), or \<open>None\<close> when the pattern does not match
  (\<^verbatim>\<open>str.match(re) === null\<close>, \<^verbatim>\<open>re.test(str) === false\<close>). In each of the ten patterns
  group 1 takes part in every match.
\<close>

datatype regexp =
    RE_prompt_quoted
  | RE_prompt_unquoted
  | RE_pornography
  | RE_child_exploitation
  | RE_extreme_violence
  | RE_terrorism
  | RE_fraud_deception
  | RE_weapons
  | RE_graphic
  | RE_drugs

type_synonym regexp_engine = "regexp \<Rightarrow> string \<Rightarrow> string option"

definition HARMFUL_IMAGE_PATTERNS :: "(regexp \<times> string) list" where
  "HARMFUL_IMAGE_PATTERNS =
     [(RE_pornography, ''pornography''),
      (RE_child_exploitation, ''child exploitation''),
      (RE_extreme_violence, ''extreme violence''),
      (RE_terrorism, ''terrorism''),
      (RE_fraud_deception, ''fraud/deception'')]"

definition CONCERNING_IMAGE_PATTERNS :: "(regexp \<times> string) list" where
  "CONCERNING_IMAGE_PATTERNS =
     [(RE_weapons, ''weapons depicted''),
      (RE_graphic, ''potentially graphic content''),
      (RE_drugs, ''drug-related content'')]"

subsection \<open>Image-generation commands\<close>

definition isImageGenerationCommand :: "string \<Rightarrow> bool" where
  "isImageGenerationCommand cmd =
     (let lowerCmd = toLowerCase cmd
      in list_ex (\<lambda>pattern. js_includes lowerCmd pattern) IMAGE_GEN_PATTERNS)"

text \<open>\<open>None\<close> is the \<^verbatim>\<open>null\<close> that \<^verbatim>\<open>extractImagePrompt\<close> returns.\<close>

definition extractImagePrompt :: "regexp_engine \<Rightarrow> string \<Rightarrow> string option" where
  "extractImagePrompt rx cmd =
     (case rx RE_prompt_quoted cmd of
        Some promptMatch \<Rightarrow> Some promptMatch
      | None \<Rightarrow>
          (case rx RE_prompt_unquoted cmd of
             Some unquotedMatch \<Rightarrow> Some (trim unquotedMatch)
           | None \<Rightarrow> None))"

text \<open>
  \<^verbatim>\<open>checkImagePromptContent\<close> returns \<^verbatim>\<open>{ block, reason }\<close> or \<^verbatim>\<open>null\<close>: the first harmful
  pattern that matches blocks, else the first concerning pattern that matches does not.
\<close>

definition checkImagePromptContent :: "regexp_engine \<Rightarrow> string \<Rightarrow> (bool \<times> string) option" where
  "checkImagePromptContent rx prompt =
     (case find (\<lambda>(pattern, category). rx pattern prompt \<noteq> None) HARMFUL_IMAGE_PATTERNS of
        Some (pattern, category) \<Rightarrow>
          Some (True, ''Image request contains '' @ category @ '' (violation of dignity)'')
      | None \<Rightarrow>
          (case find (\<lambda>(pattern, reason). rx pattern prompt \<noteq> None)
                  CONCERNING_IMAGE_PATTERNS of
             Some (pattern, reason) \<Rightarrow> Some (False, ''Image request may contain '' @ reason)
           | None \<Rightarrow> None))"

text \<open>
  The content check of an image-generation command, as the three callers make it:
  \<^verbatim>\<open>const prompt = extractImagePrompt(cmd); if (prompt) { contentCheck = ... }\<close>. An empty
  prompt is falsy and is not checked.
\<close>

definition promptContentCheck :: "regexp_engine \<Rightarrow> string \<Rightarrow> (bool \<times> string) option" where
  "promptContentCheck rx cmd =
     (case extractImagePrompt rx cmd of
        None \<Rightarrow> None
      | Some prompt \<Rightarrow> if prompt \<noteq> [] then checkImagePromptContent rx prompt else None)"

subsection \<open>\<^verbatim>\<open>checkIntrinsicEvil\<close>\<close>

text \<open>
  The result is \<open>None\<close> when \<^verbatim>\<open>String(params.command || "")\<close> throws, \<open>Some None\<close> for
  \<^verbatim>\<open>null\<close> and \<open>Some (Some reason)\<close> for a reason.
\<close>

definition checkIntrinsicEvil :: "regexp_engine \<Rightarrow> string \<Rightarrow> object \<Rightarrow> string option option" where
  "checkIntrinsicEvil rx toolName params =
     (if toolName = ''exec'' then do {
        cmd \<leftarrow> String_or_empty (map_of params ''command'');
        let lowerCmd = toLowerCase cmd;
        Some (
          if js_includes lowerCmd ''rm -rf /'' \<and> \<not> js_includes lowerCmd ''rm -rf /tmp''
            then Some ''Command would destroy root filesystem''
          else if js_includes lowerCmd '':(){ :|:& };:''
            then Some ''Fork bomb detected''
          else if js_includes lowerCmd ''mkfs'' \<and> \<not> js_includes lowerCmd ''--dry-run''
            then Some ''Filesystem format command detected''
          else if js_includes lowerCmd ''> /dev/sd'' \<or>
                  js_includes lowerCmd ''dd if='' \<and> js_includes lowerCmd ''of=/dev/''
            then Some ''Raw disk write detected''
          else if isImageGenerationCommand cmd then
            (case promptContentCheck rx cmd of
               Some (block, reason) \<Rightarrow> if block then Some reason else None
             | None \<Rightarrow> None)
          else None)
      } else Some None)"

subsection \<open>\<^verbatim>\<open>assessClarity\<close> and \<^verbatim>\<open>assessStakes\<close>\<close>

text \<open>
  Each is the source's sequence of updates of one variable, in the source's order;
  \<open>None\<close> when a \<^verbatim>\<open>String(...)\<close> conversion throws.
\<close>

definition assessClarity :: "regexp_engine \<Rightarrow> string \<Rightarrow> object \<Rightarrow> int option" where
  "assessClarity rx toolName params = do {
     let clarity = 1;
     clarity \<leftarrow>
       (if toolName \<in> set INFRASTRUCTURE_TOOLS then
          (if toolName = ''exec'' then do {
             cmd \<leftarrow> String_or_empty (map_of params ''command'');
             Some (if isImageGenerationCommand cmd then
                     (case promptContentCheck rx cmd of
                        Some (block, reason) \<Rightarrow> if block then clarity else clarity + 3
                      | None \<Rightarrow> clarity)
                   else clarity + 3)
           } else Some (clarity + 3))
        else Some clarity);
     let clarity = (if toolName \<in> set EXTERNAL_EFFECT_TOOLS then clarity + 2 else clarity);
     clarity \<leftarrow>
       (if toolName = ''gateway'' then do {
          action \<leftarrow> String_or_empty (map_of params ''action'');
          clarity \<leftarrow>
            (if action = ''config.apply'' \<or> action = ''config.patch'' then do {
               let clarity = clarity + 3;
               raw \<leftarrow> String_or_empty (map_of params ''raw'');
               Some (if js_includes raw ''model'' \<or> js_includes raw ''defaultModel''
                     then clarity + 2 else clarity)
             } else Some clarity);
          let clarity = (if action = ''update.run'' then clarity + 2 else clarity);
          Some (if action = ''restart'' then clarity + 1 else clarity)
        } else Some clarity);
     clarity \<leftarrow>
       (if toolName = ''exec'' then do {
          cmd \<leftarrow> String_or_empty (map_of params ''command'');
          Some (if \<not> isImageGenerationCommand cmd then
                  (let clarity = (if js_includes cmd ''sudo'' then clarity + 2 else clarity);
                       clarity = (if js_includes cmd ''rm '' \<or> js_includes cmd (''rm'' @ [CHR 0x09])
                                  then clarity + 2 else clarity)
                   in if js_includes cmd ''|'' \<or> js_includes cmd '';''
                      then clarity + 1 else clarity)
                else clarity)
        } else Some clarity);
     let clarity =
       (if toolName = ''message'' then
          (let clarity = clarity + 1
           in case map_of params ''targets'' of
                Some (JArray targets) \<Rightarrow> if length targets > 1 then clarity + 2 else clarity
              | _ \<Rightarrow> clarity)
        else clarity);
     clarity \<leftarrow>
       (if toolName = ''cron'' then do {
          action \<leftarrow> String_or_empty (map_of params ''action'');
          Some (if action = ''add'' \<or> action = ''update'' then clarity + 2 else clarity)
        } else Some clarity);
     Some (min clarity 10)
   }"

text \<open>\<^verbatim>\<open>a || b\<close> on two property reads.\<close>

definition js_or :: "json option \<Rightarrow> json option \<Rightarrow> json option" where
  "js_or a b = (case a of Some x \<Rightarrow> if ToBoolean x then a else b | None \<Rightarrow> b)"

definition assessStakes :: "regexp_engine \<Rightarrow> string \<Rightarrow> object \<Rightarrow> int option" where
  "assessStakes rx toolName params = do {
     let stakes = 1;
     stakes \<leftarrow>
       (if toolName \<in> set INFRASTRUCTURE_TOOLS then
          (if toolName = ''exec'' then do {
             cmd \<leftarrow> String_or_empty (map_of params ''command'');
             Some (if isImageGenerationCommand cmd then
                     (case promptContentCheck rx cmd of
                        Some (block, reason) \<Rightarrow> if block then stakes else stakes + 2
                      | None \<Rightarrow> stakes)
                   else stakes + 3)
           } else Some (stakes + 3))
        else Some stakes);
     stakes \<leftarrow>
       (if toolName = ''gateway'' then do {
          action \<leftarrow> String_or_empty (map_of params ''action'');
          stakes \<leftarrow>
            (if action = ''config.apply'' \<or> action = ''config.patch'' then do {
               let stakes = stakes + 2;
               raw \<leftarrow> String_or_empty (map_of params ''raw'');
               let stakes = (if js_includes raw ''model'' \<or> js_includes raw ''defaultModel''
                             then stakes + 3 else stakes);
               Some (if js_includes raw ''plugin'' then stakes + 2 else stakes)
             } else Some stakes);
          let stakes = (if action = ''update.run'' then stakes + 3 else stakes);
          Some (if action = ''restart'' then stakes + 1 else stakes)
        } else Some stakes);
     stakes \<leftarrow>
       (if toolName = ''exec'' then do {
          cmd \<leftarrow> String_or_empty (map_of params ''command'');
          Some (if \<not> isImageGenerationCommand cmd then
                  (let stakes = (if js_includes cmd ''rm '' \<and> \<not> js_includes cmd ''-i''
                                 then stakes + 3 else stakes);
                       stakes = (if js_includes cmd ''kill'' \<or> js_includes cmd ''pkill''
                                 then stakes + 2 else stakes);
                       stakes = (if js_includes cmd ''shutdown'' \<or> js_includes cmd ''reboot''
                                 then stakes + 5 else stakes);
                       stakes = (if js_includes cmd ''sudo'' then stakes + 2 else stakes)
                   in if js_includes cmd ''openclaw'' \<and>
                         (js_includes cmd ''stop'' \<or> js_includes cmd ''kill'')
                      then stakes + 4 else stakes)
                else stakes)
        } else Some stakes);
     stakes \<leftarrow>
       (if toolName = ''Write'' \<or> toolName = ''Edit'' then do {
          path \<leftarrow> String_or_empty (js_or (map_of params ''path'') (map_of params ''file_path''));
          let stakes = (if js_includes path ''openclaw'' \<and> js_includes path ''config''
                        then stakes + 3 else stakes);
          Some (if js_includes path ''.env'' \<or> js_includes path ''secret'' \<or>
                   js_includes path ''credential''
                then stakes + 2 else stakes)
        } else Some stakes);
     let stakes = (if toolName = ''message'' then stakes + 2 else stakes);
     stakes \<leftarrow>
       (if toolName = ''cron'' then do {
          action \<leftarrow> String_or_empty (map_of params ''action'');
          Some (if action = ''add'' \<or> action = ''update'' then stakes + 2 else stakes)
        } else Some stakes);
     Some (min stakes 10)
   }"

subsection \<open>\<^verbatim>\<open>buildEscalationReason\<close>\<close>

definition buildEscalationReason ::
  "regexp_engine \<Rightarrow> string \<Rightarrow> object \<Rightarrow> int \<Rightarrow> int \<Rightarrow> int \<Rightarrow> string option" where
  "buildEscalationReason rx toolName params clarity stakes score = do {
     let parts =
       [''Action: '' @ toolName,
        ''Risk score: '' @ Number_toString score @ '' (clarity='' @ Number_toString clarity @
          '', stakes='' @ Number_toString stakes @ '')''];
     parts \<leftarrow>
       (if toolName = ''gateway'' then do {
          action \<leftarrow> String_or_empty (map_of params ''action'');
          let parts = (if js_includes action ''config''
                       then parts @ [''This modifies OpenClaw configuration''] else parts);
          let parts = (if action = ''update.run''
                       then parts @ [''This updates OpenClaw software''] else parts);
          Some (if action = ''restart''
                then parts @ [''This will restart OpenClaw''] else parts)
        } else Some parts);
     parts \<leftarrow>
       (if toolName = ''exec'' then do {
          cmd \<leftarrow> String_or_empty (map_of params ''command'');
          Some (if isImageGenerationCommand cmd then
                  (let parts =
                     (case promptContentCheck rx cmd of
                        Some (block, reason) \<Rightarrow> if block then parts else parts @ [reason]
                      | None \<Rightarrow> parts)
                   in parts @ [''Image generation''])
                else parts @
                  [''Command: '' @ take 80 cmd @ (if length cmd > 80 then ''...'' else [])])
        } else Some parts);
     parts \<leftarrow>
       (if toolName = ''message'' then
          (case js_or (js_or (map_of params ''to'') (map_of params ''target''))
                  (map_of params ''targets'') of
             Some to \<Rightarrow>
               if ToBoolean to then do {
                 recipient \<leftarrow> js_String to;
                 Some (parts @ [''Recipient: '' @ take 50 recipient])
               } else Some parts
           | None \<Rightarrow> Some parts)
        else Some parts);
     Some (join '' | '' parts)
   }"

subsection \<open>\<^verbatim>\<open>evaluate\<close>\<close>

text \<open>
  \<^verbatim>\<open>EvaluationResult\<close>, in the three shapes \<^verbatim>\<open>evaluate\<close> returns:
  \<^verbatim>\<open>{ decision: "allow", clarity, stakes }\<close>, \<^verbatim>\<open>{ decision: "block", reason }\<close> and
  \<^verbatim>\<open>{ decision: "escalate", reason, clarity, stakes }\<close>.
\<close>

datatype EvaluationResult =
    Allow int int
  | Block string
  | Escalate string int int

text \<open>A call of the logger: the method and the message.\<close>

datatype log_level = LogDebug | LogInfo | LogWarn

type_synonym log_entry = "log_level \<times> string"

text \<open>
  \<^verbatim>\<open>evaluate\<close> returns the messages it logged and its result, \<open>None\<close> when a conversion
  threw. The context argument is not read by the source and is left out.
\<close>

definition evaluate ::
  "regexp_engine \<Rightarrow> string \<Rightarrow> object \<Rightarrow> GuardianAngelConfig
     \<Rightarrow> log_entry list \<times> EvaluationResult option" where
  "evaluate rx toolName params config =
     (case checkIntrinsicEvil rx toolName params of
        None \<Rightarrow> ([], None)
      | Some intrinsicCheck \<Rightarrow>
          (case (if intrinsicCheck = Some [] then None else intrinsicCheck) of
             Some reason \<Rightarrow> ([], Some (Block reason))
           | None \<Rightarrow>
               (case assessClarity rx toolName params of
                  None \<Rightarrow> ([], None)
                | Some clarity \<Rightarrow>
                    (case assessStakes rx toolName params of
                       None \<Rightarrow> ([], None)
                     | Some stakes \<Rightarrow>
                         (let score = clarity * stakes;
                              threshold =
                                (case escalationThreshold config of
                                   Some t \<Rightarrow> t
                                 | None \<Rightarrow> DEFAULT_ESCALATION_THRESHOLD);
                              logged =
                                [(LogDebug, ''[GA] '' @ toolName @
                                   '': clarity='' @ Number_toString clarity @
                                   '' stakes='' @ Number_toString stakes @
                                   '' score='' @ Number_toString score @
                                   '' threshold='' @ Number_toString threshold)]
                          in if score \<ge> threshold then
                               (case buildEscalationReason rx toolName params
                                       clarity stakes score of
                                  None \<Rightarrow> (logged, None)
                                | Some reason \<Rightarrow> (logged, Some (Escalate reason clarity stakes)))
                             else (logged, Some (Allow clarity stakes)))))))"

section \<open>The store: \<^verbatim>\<open>src/store.ts\<close>\<close>

subsection \<open>\<^verbatim>\<open>hashParams\<close>\<close>

text \<open>
  \<^verbatim>\<open>
  function hashParams(toolName, params) {
    const sortedKeys = Object.keys(params).sort();
    const normalized = JSON.stringify({ toolName, params }, sortedKeys);
    return createHash("sha256").update(normalized).digest("hex").slice(0, 16);
  }
  \<close>
  \<open>sha256\<close> is the runtime's SHA-256, a digest of 32 bytes.
\<close>

definition normalized :: "string \<Rightarrow> object \<Rightarrow> string" where
  "normalized toolName params =
     (let sortedKeys = sort (Object_keys params)
      in JSON_stringify
           (JObject [(''toolName'', JString toolName), (''params'', JObject params)])
           sortedKeys)"

definition hashParams :: "(string \<Rightarrow> 256 word) \<Rightarrow> string \<Rightarrow> object \<Rightarrow> string" where
  "hashParams sha256 toolName params =
     take 16 (toString_hex 64 (unat (sha256 (normalized toolName params))))"

subsection \<open>The stored state\<close>

text \<open>
  \<^verbatim>\<open>PendingEscalation\<close> and \<^verbatim>\<open>ApprovedAction\<close> (\<^verbatim>\<open>src/types.ts\<close>); the fields carry the
  prefixes \<open>p_\<close> and \<open>a_\<close>. Times are milliseconds. An \<^verbatim>\<open>ApprovedAction\<close> that
  \<^verbatim>\<open>approvePending\<close> builds from a value that is no \<^verbatim>\<open>PendingEscalation\<close> has
  \<^verbatim>\<open>paramsHash\<close> and \<^verbatim>\<open>toolName\<close> \<^verbatim>\<open>undefined\<close>: \<open>None\<close>.
\<close>

record PendingEscalation =
  p_nonce :: string
  p_paramsHash :: string
  p_toolName :: string
  p_params :: object
  p_createdAt :: int
  p_expiresAt :: int

record ApprovedAction =
  a_nonce :: string
  a_paramsHash :: "string option"
  a_toolName :: "string option"
  a_approvedAt :: int
  a_expiresAt :: int

record StoreState =
  pending :: "string \<rightharpoonup> PendingEscalation"
  approved :: "string \<rightharpoonup> ApprovedAction"

text \<open>
  The store file: missing, unreadable (the read or \<^verbatim>\<open>JSON.parse\<close> throws), or the
  document of a state, which \<^verbatim>\<open>JSON.parse\<close> reads back as \<^verbatim>\<open>JSON.stringify\<close> wrote it.
\<close>

datatype store_file = Missing | Unreadable | Document StoreState

text \<open>
  What a call of a store function takes from its environment: the readings of
  \<^verbatim>\<open>Date.now()\<close>, numbered from 0 in the order the call makes them; the four bytes of
  \<^verbatim>\<open>randomBytes(4)\<close>; and whether \<^verbatim>\<open>writeFileSync\<close> succeeds, or else what the failed write
  leaves in the file.
\<close>

datatype write_result = Written | WriteFailed store_file

record io =
  Date_now :: "nat \<Rightarrow> int"
  randomBytes :: "32 word"
  writeFileSync :: write_result

definition load :: "store_file \<Rightarrow> StoreState" where
  "load f =
     (case f of
        Document state \<Rightarrow> state
      | _ \<Rightarrow> \<lparr>pending = Map.empty, approved = Map.empty\<rparr>)"

text \<open>
  \<^verbatim>\<open>save\<close> catches the error of a failed write and logs it to the console; it returns
  nothing either way.
\<close>

definition save :: "io \<Rightarrow> StoreState \<Rightarrow> store_file" where
  "save env state =
     (case writeFileSync env of
        Written \<Rightarrow> Document state
      | WriteFailed left \<Rightarrow> left)"

text \<open>
  A property read \<^verbatim>\<open>obj[key]\<close> of a plain object: the own property, else the member of
  \<^verbatim>\<open>Object.prototype\<close> of that name (a function, or for \<^verbatim>\<open>__proto__\<close> the prototype
  object: truthy, and every field the store reads of it is \<^verbatim>\<open>undefined\<close>), else
  \<^verbatim>\<open>undefined\<close>.
\<close>

datatype 'a property = Own 'a | Inherited | Absent

definition Get :: "(string \<rightharpoonup> 'a) \<Rightarrow> string \<Rightarrow> 'a property" where
  "Get obj key =
     (case obj key of
        Some v \<Rightarrow> Own v
      | None \<Rightarrow> if key \<in> set Object_prototype_names then Inherited else Absent)"

text \<open>
  An assignment \<^verbatim>\<open>obj[key] = value\<close> of an object value: it writes the own property,
  except that for \<^verbatim>\<open>__proto__\<close>, when the object has no own property of that name, it
  replaces the prototype and writes no property.
\<close>

definition Set_property :: "(string \<rightharpoonup> 'a) \<Rightarrow> string \<Rightarrow> 'a \<Rightarrow> (string \<rightharpoonup> 'a)" where
  "Set_property obj key v =
     (if key = ''__proto__'' \<and> obj key = None then obj else obj(key \<mapsto> v))"

text \<open>\<^verbatim>\<open>config.pendingTimeoutMs || DEFAULT\<close>: a missing or zero value gives the default.\<close>

definition store_pendingTimeoutMs :: "GuardianAngelConfig \<Rightarrow> int" where
  "store_pendingTimeoutMs config =
     (case pendingTimeoutMs config of
        Some n \<Rightarrow> if n \<noteq> 0 then n else DEFAULT_PENDING_TIMEOUT_MS
      | None \<Rightarrow> DEFAULT_PENDING_TIMEOUT_MS)"

definition store_approvalWindowMs :: "GuardianAngelConfig \<Rightarrow> int" where
  "store_approvalWindowMs config =
     (case approvalWindowMs config of
        Some n \<Rightarrow> if n \<noteq> 0 then n else DEFAULT_APPROVAL_WINDOW_MS
      | None \<Rightarrow> DEFAULT_APPROVAL_WINDOW_MS)"

subsection \<open>\<^verbatim>\<open>createPending\<close>, \<^verbatim>\<open>approvePending\<close>, \<^verbatim>\<open>consumeApproval\<close>\<close>

text \<open>
  Each function loads the state from the file, changes it and saves it; it returns its
  result and the file it leaves. (\<^verbatim>\<open>cleanup\<close>, which \<^verbatim>\<open>createStore\<close> runs once when the
  plugin is registered, and the approval tool of \<^verbatim>\<open>src/approve-tool.ts\<close>, which passes
  the result of \<^verbatim>\<open>approvePending\<close> on as text, are not embedded.)
\<close>

definition createPending ::
  "GuardianAngelConfig \<Rightarrow> io \<Rightarrow> store_file \<Rightarrow> string \<Rightarrow> string \<Rightarrow> object \<Rightarrow> string \<times> store_file" where
  "createPending config env f paramsHash toolName params =
     (let state = load f;
          nonce = toString_hex 8 (unat (randomBytes env));
          state = state\<lparr>pending := (pending state)(nonce \<mapsto>
            \<lparr>p_nonce = nonce,
             p_paramsHash = paramsHash,
             p_toolName = toolName,
             p_params = params,
             p_createdAt = Date_now env 0,
             p_expiresAt = Date_now env 1 + store_pendingTimeoutMs config\<rparr>)\<rparr>
      in (nonce, save env state))"

text \<open>
  \<^verbatim>\<open>{ ok: true, windowSeconds }\<close> or \<^verbatim>\<open>{ ok: false, error }\<close>. \<^verbatim>\<open>Math.round\<close> rounds to the
  nearest integer, a half upwards, as \<^const>\<open>round\<close> does.
\<close>

datatype approve_result = Ok int | Failed string

definition approvePending :: "GuardianAngelConfig \<Rightarrow> io \<Rightarrow> store_file \<Rightarrow> string \<Rightarrow> approve_result \<times> store_file" where
  "approvePending config env f nonce =
     (let state = load f;
          windowSeconds = round (real_of_int (store_approvalWindowMs config) / 1000)
      in case Get (pending state) nonce of
           Absent \<Rightarrow> (Failed ''Nonce not found or already used'', f)
         | Own p \<Rightarrow>
             if Date_now env 0 > p_expiresAt p then
               (Failed ''Escalation expired. Please retry the original action.'',
                save env (state\<lparr>pending := (pending state)(nonce := None)\<rparr>))
             else
               (Ok windowSeconds,
                save env (state\<lparr>
                  pending := (pending state)(nonce := None),
                  approved := Set_property (approved state) (p_paramsHash p)
                    \<lparr>a_nonce = nonce,
                     a_paramsHash = Some (p_paramsHash p),
                     a_toolName = Some (p_toolName p),
                     a_approvedAt = Date_now env 1,
                     a_expiresAt = Date_now env 2 + store_approvalWindowMs config\<rparr>\<rparr>))
         | Inherited \<Rightarrow>
             (Ok windowSeconds,
              save env (state\<lparr>
                approved := Set_property (approved state) ''undefined''
                  \<lparr>a_nonce = nonce,
                   a_paramsHash = None,
                   a_toolName = None,
                   a_approvedAt = Date_now env 1,
                   a_expiresAt = Date_now env 2 + store_approvalWindowMs config\<rparr>\<rparr>)))"

text \<open>
  \<^verbatim>\<open>consumeApproval\<close> returns \<^verbatim>\<open>null\<close> (\<open>None\<close>) or \<^verbatim>\<open>{ nonce }\<close>, where the nonce is
  \<^verbatim>\<open>undefined\<close> (\<open>Approval None\<close>) when the value read is no \<^verbatim>\<open>ApprovedAction\<close>.
\<close>

datatype approval = Approval "string option"

definition consumeApproval :: "io \<Rightarrow> store_file \<Rightarrow> string \<Rightarrow> approval option \<times> store_file" where
  "consumeApproval env f paramsHash =
     (let state = load f
      in case Get (approved state) paramsHash of
           Absent \<Rightarrow> (None, f)
         | Own a \<Rightarrow>
             if Date_now env 0 > a_expiresAt a then
               (None, save env (state\<lparr>approved := (approved state)(paramsHash := None)\<rparr>))
             else
               (Some (Approval (Some (a_nonce a))),
                save env (state\<lparr>approved := (approved state)(paramsHash := None)\<rparr>))
         | Inherited \<Rightarrow> (Some (Approval None), save env state))"

section \<open>The gate: \<^verbatim>\<open>src/hook.ts\<close>\<close>

text \<open>
  The handler returns nothing (\<open>Allowed\<close>: the tool call proceeds) or
  \<^verbatim>\<open>{ block: true, blockReason }\<close>.
\<close>

datatype BeforeToolCallResult = Allowed | Blocked string

definition escalate ::
  "GuardianAngelConfig \<Rightarrow> io \<Rightarrow> store_file \<Rightarrow> string \<Rightarrow> object \<Rightarrow> string \<Rightarrow> string
     \<Rightarrow> BeforeToolCallResult \<times> store_file \<times> log_entry list" where
  "escalate config env f toolName params paramsHash reason =
     (let (nonce, f') = createPending config env f paramsHash toolName params
      in (Blocked (''GUARDIAN_ANGEL_ESCALATE|'' @ nonce @ ''|'' @ reason),
          f',
          [(LogInfo, ''[GA] '' @ toolName @ '': escalating (nonce: '' @ nonce @ '')'')]))"

text \<open>
  The handler of \<^verbatim>\<open>createBeforeToolCallHandler(config, store, logger)\<close>, for the store of
  \<^verbatim>\<open>createStore(config, ...)\<close>. It takes the environment of its call of
  \<^verbatim>\<open>consumeApproval\<close> (\<open>env1\<close>) and of its call of \<^verbatim>\<open>createPending\<close> (\<open>env2\<close>), and returns
  its result (\<open>None\<close> when \<^verbatim>\<open>evaluate\<close> throws), the file it leaves and the messages it
  logged.
\<close>

definition nonce_text :: "approval \<Rightarrow> string" where
  "nonce_text a = (case a of Approval (Some nonce) \<Rightarrow> nonce | Approval None \<Rightarrow> ''undefined'')"

definition createBeforeToolCallHandler ::
  "GuardianAngelConfig \<Rightarrow> (string \<Rightarrow> 256 word) \<Rightarrow> regexp_engine \<Rightarrow> io \<Rightarrow> io \<Rightarrow> store_file
     \<Rightarrow> string \<Rightarrow> object \<Rightarrow> BeforeToolCallResult option \<times> store_file \<times> log_entry list" where
  "createBeforeToolCallHandler config sha256 rx env1 env2 f toolName params =
     (if enabled config = Some False then (Some Allowed, f, [])
      else if toolName \<in> set (case neverBlock config of Some l \<Rightarrow> l | None \<Rightarrow> []) then
        (Some Allowed, f, [(LogDebug, ''[GA] '' @ toolName @ '': exempt, allowing'')])
      else
        (let paramsHash = hashParams sha256 toolName params;
             (approval, f1) = consumeApproval env1 f paramsHash
         in case approval of
              Some a \<Rightarrow>
                (Some Allowed, f1,
                 [(LogInfo, ''[GA] '' @ toolName @ '': approved via nonce '' @ nonce_text a)])
            | None \<Rightarrow>
                if toolName \<in> set (case alwaysBlock config of Some l \<Rightarrow> l | None \<Rightarrow> []) then
                  (let (r, f2, logged) = escalate config env2 f1 toolName params paramsHash
                         (''Tool '' @ [CHR 0x27] @ toolName @ [CHR 0x27] @
                          '' requires explicit approval per configuration'')
                   in (Some r, f2, logged))
                else
                  (case evaluate rx toolName params config of
                     (logged, None) \<Rightarrow> (None, f1, logged)
                   | (logged, Some (Allow clarity stakes)) \<Rightarrow>
                       (Some Allowed, f1,
                        logged @ [(LogDebug, ''[GA] '' @ toolName @ '': virtues aligned (score='' @
                          Number_toString ((if clarity \<noteq> 0 then clarity else 1) *
                                           (if stakes \<noteq> 0 then stakes else 1)) @
                          ''), allowing'')])
                   | (logged, Some (Block reason)) \<Rightarrow>
                       (Some (Blocked (''GUARDIAN_ANGEL_BLOCK|'' @ reason)), f1,
                        logged @ [(LogWarn, ''[GA] '' @ toolName @ '': BLOCKED ('' @ reason @ '')'')])
                   | (logged, Some (Escalate reason clarity stakes)) \<Rightarrow>
                       (let (r, f2, logged') = escalate config env2 f1 toolName params paramsHash
                              (if reason \<noteq> [] then reason
                               else ''High-stakes action requires approval'')
                        in (Some r, f2, logged @ logged')))))"

section \<open>Properties\<close>

subsection \<open>The fingerprint\<close>

lemma set_foldl_PropertyList:
  "set (foldl (\<lambda>pl item. if item \<in> set pl then pl else pl @ [item]) acc xs) = set acc \<union> set xs"
  by (induction xs arbitrary: acc) auto

lemma set_PropertyList: "set (PropertyList xs) = set xs"
  by (simp add: PropertyList_def set_foldl_PropertyList)

lemma concat_map_Nil: "(\<And>x. x \<in> set xs \<Longrightarrow> f x = []) \<Longrightarrow> concat (map f xs) = []"
  by (induction xs) auto

lemma SerializeJSONProperty_no_member:
  assumes "\<And>P. P \<in> set K \<Longrightarrow> P \<notin> fst ` set kvs"
    and "''__proto__'' \<notin> set K"
  shows "SerializeJSONProperty K (JObject kvs) = ''{}''"
proof -
  let ?own = "map (\<lambda>(k, v). (k, SerializeJSONProperty K v)) kvs"
  have fst_own: "fst ` set ?own = fst ` set kvs"
    by force
  have "concat (map (\<lambda>P.
            case map_of ?own P of
              Some strP \<Rightarrow> [QuoteJSONString P @ '':'' @ strP]
            | None \<Rightarrow>
                if P = ''__proto__''
                then [QuoteJSONString P @ '':{'' @ QuoteJSONString P @ '':null}'']
                else []) K) = []"
  proof (rule concat_map_Nil)
    fix P assume P: "P \<in> set K"
    with assms(1) fst_own have "P \<notin> fst ` set ?own"
      by blast
    then have "map_of ?own P = None"
      by (simp only: map_of_eq_None_iff not_False_eq_True)
    moreover from P assms(2) have "P \<noteq> ''__proto__''"
      by blast
    ultimately show "(case map_of ?own P of
              Some strP \<Rightarrow> [QuoteJSONString P @ '':'' @ strP]
            | None \<Rightarrow>
                if P = ''__proto__''
                then [QuoteJSONString P @ '':{'' @ QuoteJSONString P @ '':null}'']
                else []) = []"
      by simp
  qed
  then show ?thesis
    by (simp add: Let_def)
qed

lemma normalized_without_wrapper_keys:
  assumes "''toolName'' \<notin> set (Object_keys params)"
    and "''params'' \<notin> set (Object_keys params)"
    and "''__proto__'' \<notin> set (Object_keys params)"
  shows "normalized toolName params = ''{}''"
proof -
  let ?K = "PropertyList (sort (Object_keys params))"
  have K: "set ?K = set (Object_keys params)"
    by (simp add: set_PropertyList)
  have "SerializeJSONProperty ?K
          (JObject [(''toolName'', JString toolName), (''params'', JObject params)]) = ''{}''"
  proof (rule SerializeJSONProperty_no_member)
    fix P assume "P \<in> set ?K"
    with K assms show "P \<notin> fst ` set [(''toolName'', JString toolName), (''params'', JObject params)]"
      by auto
  next
    from K assms(3) show "''__proto__'' \<notin> set ?K"
      by simp
  qed
  then show ?thesis
    by (simp only: normalized_def JSON_stringify_def Let_def)
qed

lemma toString_hex_numeral:
  "toString_hex (numeral k) v = toString_hex (pred_numeral k) (v div 16) @ [hex_digit v]"
  by (simp only: numeral_eq_Suc [of k] toString_hex.simps)

lemma set_toString_hex: "set (toString_hex len v) \<subseteq> set ''0123456789abcdef''"
proof (induction len arbitrary: v)
  case 0
  then show ?case by simp
next
  case (Suc len)
  have "hex_digit v \<in> set ''0123456789abcdef''"
    unfolding hex_digit_def by (rule nth_mem) simp
  with Suc show ?case by simp
qed

lemma set_hashParams: "set (hashParams sha256 toolName params) \<subseteq> set ''0123456789abcdef''"
  unfolding hashParams_def using set_take_subset set_toString_hex by (rule subset_trans)

lemma prototype_names_not_hex:
  "\<forall>name \<in> set Object_prototype_names. \<exists>c \<in> set name. c \<notin> set ''0123456789abcdef''"
  by (simp add: Object_prototype_names_def)

text \<open>A fingerprint is sixteen hexadecimal digits: no member of \<^verbatim>\<open>Object.prototype\<close> has its name.\<close>

lemma hashParams_no_prototype_name:
  "hashParams sha256 toolName params \<notin> set Object_prototype_names"
  using prototype_names_not_hex set_hashParams by blast

lemma hashParams_cong:
  "normalized t p = normalized t' p' \<Longrightarrow> hashParams sha256 t p = hashParams sha256 t' p'"
  by (simp only: hashParams_def)

text \<open>
  C1 (the code departs from it). The claim: requests that differ in the tool name or in a
  parameter value get different fingerprints. In the code the array replacer filters
  the keys of the wrapper \<^verbatim>\<open>{ toolName, params }\<close> too, so the text that is hashed is
  \<^verbatim>\<open>{}\<close> for every request whose parameters have no key \<^verbatim>\<open>toolName\<close>, \<^verbatim>\<open>params\<close> or
  \<^verbatim>\<open>__proto__\<close>: listing a directory, deleting a home directory and a configuration
  change of another tool all have one fingerprint, whatever SHA-256 is.
\<close>

theorem hashParams_ignores_the_request:
  "normalized ''exec'' [(''command'', JString ''ls'')] = ''{}'' \<and>
   hashParams sha256 ''exec'' [(''command'', JString ''ls'')] =
     hashParams sha256 ''exec'' [(''command'', JString ''rm -rf /home/user'')] \<and>
   hashParams sha256 ''exec'' [(''command'', JString ''ls'')] =
     hashParams sha256 ''gateway''
       [(''action'', JString ''config.apply''), (''raw'', JString ''defaultModel'')]"
  by (intro conjI hashParams_cong) (simp_all add: normalized_without_wrapper_keys Object_keys_def)

text \<open>
  Every request whose parameters have none of the keys \<^verbatim>\<open>toolName\<close>, \<^verbatim>\<open>params\<close> and
  \<^verbatim>\<open>__proto__\<close> has the fingerprint of the text \<^verbatim>\<open>{}\<close>.
\<close>

theorem ordinary_requests_share_one_fingerprint:
  assumes "''toolName'' \<notin> set (Object_keys params)"
    and "''params'' \<notin> set (Object_keys params)"
    and "''__proto__'' \<notin> set (Object_keys params)"
  shows "hashParams sha256 toolName params = take 16 (toString_hex 64 (unat (sha256 ''{}'')))"
  using assms by (simp add: hashParams_def normalized_without_wrapper_keys)

theorem ordinary_requests_share_one_fingerprint_witness:
  "''toolName'' \<notin> set (Object_keys [(''command'', JString ''rm -rf /home/user'')]) \<and>
   ''params'' \<notin> set (Object_keys [(''command'', JString ''rm -rf /home/user'')]) \<and>
   ''__proto__'' \<notin> set (Object_keys [(''command'', JString ''rm -rf /home/user'')]) \<and>
   hashParams (\<lambda>s. 0x44136fa355b3678a1146ad16f7e8649e94fb4fc21fe77e8310c060f61caaff8a)
     ''exec'' [(''command'', JString ''rm -rf /home/user'')] = ''44136fa355b3678a''"
  using ordinary_requests_share_one_fingerprint
    [of "[(''command'', JString ''rm -rf /home/user'')]"
        "\<lambda>s. 0x44136fa355b3678a1146ad16f7e8649e94fb4fc21fe77e8310c060f61caaff8a" "''exec''"]
  by (simp add: Object_keys_def toString_hex_numeral hex_digit_def)

lemma SerializeJSONProperty_object_cong:
  assumes "map_of kvs = map_of kvs'"
  shows "SerializeJSONProperty K (JObject kvs) = SerializeJSONProperty K (JObject kvs')"
proof -
  have "map_of (map (\<lambda>(k, v). (k, SerializeJSONProperty K v)) kvs) =
        map_of (map (\<lambda>(k, v). (k, SerializeJSONProperty K v)) kvs')"
    by (simp add: map_of_map assms)
  then show ?thesis
    by (simp add: Let_def)
qed

lemma sort_keys_eq:
  assumes "distinct (map fst p)" and "distinct (map fst p')" and "map_of p = map_of p'"
  shows "sort (Object_keys p) = sort (Object_keys p')"
proof -
  from assms(3) have "dom (map_of p) = dom (map_of p')"
    by simp
  then have "set (map fst p) = set (map fst p')"
    by (simp add: dom_map_of_conv_image_fst)
  with assms(1,2) show ?thesis
    unfolding Object_keys_def
    by (intro sorted_distinct_set_unique) simp_all
qed

text \<open>
  The fingerprint does not depend on the order of the keys of the parameters.
\<close>

theorem fingerprint_ignores_key_order:
  assumes "distinct (map fst params)" and "distinct (map fst params')"
    and "map_of params = map_of params'"
  shows "hashParams sha256 toolName params = hashParams sha256 toolName params'"
proof (rule hashParams_cong)
  have "SerializeJSONProperty K (JObject params) = SerializeJSONProperty K (JObject params')" for K
    using assms(3) by (rule SerializeJSONProperty_object_cong)
  then show "normalized toolName params = normalized toolName params'"
    by (simp add: normalized_def JSON_stringify_def sort_keys_eq [OF assms] Let_def
        del: SerializeJSONProperty.simps(6)) (simp add: Let_def)
qed

theorem fingerprint_ignores_key_order_witness:
  "distinct (map fst [(''toolName'', JString ''x''), (''params'', JNumber 1)]) \<and>
   distinct (map fst [(''params'', JNumber 1), (''toolName'', JString ''x'')]) \<and>
   map_of [(''toolName'', JString ''x''), (''params'', JNumber 1)] =
     map_of [(''params'', JNumber 1), (''toolName'', JString ''x'')] \<and>
   hashParams (\<lambda>s. 0) ''exec'' [(''toolName'', JString ''x''), (''params'', JNumber 1)] =
     hashParams (\<lambda>s. 0) ''exec'' [(''params'', JNumber 1), (''toolName'', JString ''x'')]"
proof -
  have m: "map_of [(''toolName'', JString ''x''), (''params'', JNumber 1)] =
     map_of [(''params'', JNumber 1), (''toolName'', JString ''x'')]"
    by (rule ext) simp
  from fingerprint_ignores_key_order
    [of "[(''toolName'', JString ''x''), (''params'', JNumber 1)]"
        "[(''params'', JNumber 1), (''toolName'', JString ''x'')]" "\<lambda>s. 0" "''exec''"] m
  show ?thesis
    by simp
qed

subsection \<open>The store\<close>

lemma default_config_fields:
  "enabled default_config = None" "escalationThreshold default_config = None"
  "alwaysBlock default_config = None" "neverBlock default_config = None"
  "store_pendingTimeoutMs default_config = 300000"
  "store_approvalWindowMs default_config = 30000"
  by (simp_all add: default_config_def store_pendingTimeoutMs_def store_approvalWindowMs_def
      DEFAULT_PENDING_TIMEOUT_MS_def DEFAULT_APPROVAL_WINDOW_MS_def)

text \<open>
  C3, as the spec states it, fails: a write that fails (here leaving no file, or an
  unreadable one) does not keep \<^verbatim>\<open>createPending\<close> from returning its nonce, nor
  \<^verbatim>\<open>approvePending\<close> from returning \<^verbatim>\<open>{ ok: true, windowSeconds: 30 }\<close>.
\<close>

theorem failed_write_reported_as_success:
  "createPending default_config
     \<lparr>Date_now = (\<lambda>k. 1000), randomBytes = 0xa7f3c21b, writeFileSync = WriteFailed Missing\<rparr>
     Missing ''44136fa355b3678a'' ''gateway'' [(''action'', JString ''restart'')]
   = (''a7f3c21b'', Missing) \<and>
   approvePending default_config
     \<lparr>Date_now = (\<lambda>k. 2000), randomBytes = 0, writeFileSync = WriteFailed Unreadable\<rparr>
     (Document \<lparr>pending = [''a7f3c21b'' \<mapsto>
        \<lparr>p_nonce = ''a7f3c21b'', p_paramsHash = ''44136fa355b3678a'', p_toolName = ''gateway'',
         p_params = [(''action'', JString ''restart'')], p_createdAt = 1000,
         p_expiresAt = 301000\<rparr>], approved = Map.empty\<rparr>)
     ''a7f3c21b''
   = (Ok 30, Unreadable)"
  by (simp add: createPending_def approvePending_def default_config_fields save_def load_def
      Get_def Let_def toString_hex_numeral hex_digit_def)

text \<open>
  C3, amended: \<^verbatim>\<open>save\<close> swallows a failed write (the store is best-effort by its own
  comment). Whatever the write does, \<^verbatim>\<open>createPending\<close> returns the nonce it drew and
  \<^verbatim>\<open>approvePending\<close> returns what it returns when the write succeeds; after a failed
  write the file is what the failure left (or, where \<^verbatim>\<open>approvePending\<close> wrote nothing,
  the file as it was).
\<close>

theorem failed_write_is_swallowed:
  "fst (createPending config (env\<lparr>writeFileSync := w\<rparr>) f paramsHash toolName params)
     = toString_hex 8 (unat (randomBytes env)) \<and>
   snd (createPending config (env\<lparr>writeFileSync := WriteFailed left\<rparr>) f paramsHash toolName params)
     = left \<and>
   fst (approvePending config (env\<lparr>writeFileSync := w\<rparr>) f nonce)
     = fst (approvePending config (env\<lparr>writeFileSync := Written\<rparr>) f nonce) \<and>
   (snd (approvePending config (env\<lparr>writeFileSync := WriteFailed left\<rparr>) f nonce) = left \<or>
    snd (approvePending config (env\<lparr>writeFileSync := WriteFailed left\<rparr>) f nonce) = f)"
  by (simp add: createPending_def approvePending_def save_def Let_def split: property.splits)

text \<open>
  C4. For a fingerprint (a value of \<^verbatim>\<open>hashParams\<close>) with a live \<^verbatim>\<open>ApprovedAction\<close> \<open>a\<close>
  whose deadline has not passed, \<^verbatim>\<open>consumeApproval\<close> returns the nonce of \<open>a\<close> and saves
  the state without the record; on the state it saved, a second \<^verbatim>\<open>consumeApproval\<close> of
  the same fingerprint returns \<^verbatim>\<open>null\<close>, at any time.
\<close>

theorem consumeApproval_one_time:
  assumes "approved (load f) (hashParams sha256 toolName params) = Some a"
    and "\<not> Date_now env 0 > a_expiresAt a"
  shows "consumeApproval env f (hashParams sha256 toolName params) =
           (Some (Approval (Some (a_nonce a))),
            save env ((load f)\<lparr>approved :=
              (approved (load f))(hashParams sha256 toolName params := None)\<rparr>)) \<and>
         fst (consumeApproval env'
               (Document ((load f)\<lparr>approved :=
                  (approved (load f))(hashParams sha256 toolName params := None)\<rparr>))
               (hashParams sha256 toolName params)) = None"
  using assms hashParams_no_prototype_name [of sha256 toolName params]
  by (simp add: consumeApproval_def Get_def Let_def load_def)

theorem consumeApproval_one_time_witness:
  "hashParams (\<lambda>s. 0x44136fa355b3678a1146ad16f7e8649e94fb4fc21fe77e8310c060f61caaff8a)
     ''exec'' [(''command'', JString ''ls'')] = ''44136fa355b3678a'' \<and>
   approved (load (Document \<lparr>pending = Map.empty,
      approved = [''44136fa355b3678a'' \<mapsto>
        \<lparr>a_nonce = ''a7f3c21b'', a_paramsHash = Some ''44136fa355b3678a'',
         a_toolName = Some ''exec'', a_approvedAt = 60000, a_expiresAt = 90000\<rparr>]\<rparr>))
     ''44136fa355b3678a'' =
     Some \<lparr>a_nonce = ''a7f3c21b'', a_paramsHash = Some ''44136fa355b3678a'',
         a_toolName = Some ''exec'', a_approvedAt = 60000, a_expiresAt = 90000\<rparr> \<and>
   \<not> (61000 :: int) > 90000 \<and>
   consumeApproval \<lparr>Date_now = (\<lambda>k. 61000), randomBytes = 0, writeFileSync = Written\<rparr>
     (Document \<lparr>pending = Map.empty,
      approved = [''44136fa355b3678a'' \<mapsto>
        \<lparr>a_nonce = ''a7f3c21b'', a_paramsHash = Some ''44136fa355b3678a'',
         a_toolName = Some ''exec'', a_approvedAt = 60000, a_expiresAt = 90000\<rparr>]\<rparr>)
     ''44136fa355b3678a'' =
     (Some (Approval (Some ''a7f3c21b'')),
      Document \<lparr>pending = Map.empty, approved = Map.empty\<rparr>) \<and>
   fst (consumeApproval \<lparr>Date_now = (\<lambda>k. 61001), randomBytes = 0, writeFileSync = Written\<rparr>
     (Document \<lparr>pending = Map.empty, approved = Map.empty\<rparr>)
     ''44136fa355b3678a'') = None"
proof -
  have fp: "hashParams (\<lambda>s. 0x44136fa355b3678a1146ad16f7e8649e94fb4fc21fe77e8310c060f61caaff8a)
     ''exec'' [(''command'', JString ''ls'')] = ''44136fa355b3678a''"
    by (simp add: hashParams_def toString_hex_numeral hex_digit_def)
  show ?thesis
    using consumeApproval_one_time
      [of "Document \<lparr>pending = Map.empty,
            approved = [''44136fa355b3678a'' \<mapsto>
              \<lparr>a_nonce = ''a7f3c21b'', a_paramsHash = Some ''44136fa355b3678a'',
               a_toolName = Some ''exec'', a_approvedAt = 60000, a_expiresAt = 90000\<rparr>]\<rparr>"
          "\<lambda>s. 0x44136fa355b3678a1146ad16f7e8649e94fb4fc21fe77e8310c060f61caaff8a"
          "''exec''" "[(''command'', JString ''ls'')]"
          "\<lparr>a_nonce = ''a7f3c21b'', a_paramsHash = Some ''44136fa355b3678a'',
               a_toolName = Some ''exec'', a_approvedAt = 60000, a_expiresAt = 90000\<rparr>"
          "\<lparr>Date_now = (\<lambda>k. 61000), randomBytes = 0, writeFileSync = Written\<rparr>"
          "\<lparr>Date_now = (\<lambda>k. 61001), randomBytes = 0, writeFileSync = Written\<rparr>"]
    by (simp add: fp load_def save_def)
qed

text \<open>
  C5 (the code departs from it). \<^verbatim>\<open>state.pending[nonce]\<close> finds the members of
  \<^verbatim>\<open>Object.prototype\<close>: on an empty store, approving the nonce \<^verbatim>\<open>constructor\<close> succeeds
  and stores an \<^verbatim>\<open>ApprovedAction\<close> under the key \<^verbatim>\<open>undefined\<close>.
\<close>

theorem approvePending_constructor:
  "approvePending default_config env Missing ''constructor'' =
     (Ok 30,
      save env \<lparr>pending = Map.empty,
                approved = [''undefined'' \<mapsto>
                  \<lparr>a_nonce = ''constructor'', a_paramsHash = None, a_toolName = None,
                   a_approvedAt = Date_now env 1, a_expiresAt = Date_now env 2 + 30000\<rparr>]\<rparr>)"
  by (simp add: approvePending_def Get_def Let_def load_def Object_prototype_names_def
      Set_property_def default_config_fields)

lemma toString_hex_no_prototype_name: "toString_hex len v \<notin> set Object_prototype_names"
  using prototype_names_not_hex set_toString_hex by blast

text \<open>
  A nonce that the pending map does not hold and that names no member of
  \<^verbatim>\<open>Object.prototype\<close> fails approval with the not-found error; nothing is written.
\<close>

theorem approvePending_unknown_nonce:
  assumes "pending (load f) nonce = None" and "nonce \<notin> set Object_prototype_names"
  shows "approvePending config env f nonce = (Failed ''Nonce not found or already used'', f)"
  using assms by (simp add: approvePending_def Get_def Let_def)

theorem approvePending_unknown_nonce_witness:
  "pending (load Missing) ''deadbeef'' = None \<and>
   ''deadbeef'' \<notin> set Object_prototype_names \<and>
   approvePending default_config
     \<lparr>Date_now = (\<lambda>k. 1000), randomBytes = 0, writeFileSync = Written\<rparr> Missing ''deadbeef'' =
     (Failed ''Nonce not found or already used'', Missing)"
  using approvePending_unknown_nonce
    [of Missing "''deadbeef''" default_config
        "\<lparr>Date_now = (\<lambda>k. 1000), randomBytes = 0, writeFileSync = Written\<rparr>"]
  by (simp add: load_def Object_prototype_names_def)

text \<open>
  A nonce that \<^verbatim>\<open>createPending\<close> issued (eight hexadecimal digits), approved before its
  deadline: the approval succeeds, and a second approval of the same nonce, on the
  state the first one saved, fails with the not-found error.
\<close>

theorem approvePending_twice:
  assumes "pending (load f) (toString_hex 8 v) = Some p"
    and "\<not> Date_now env 0 > p_expiresAt p"
  shows "fst (approvePending config env f (toString_hex 8 v)) =
           Ok (round (real_of_int (store_approvalWindowMs config) / 1000)) \<and>
         approvePending config env'
           (snd (approvePending config (env\<lparr>writeFileSync := Written\<rparr>) f (toString_hex 8 v)))
           (toString_hex 8 v) =
           (Failed ''Nonce not found or already used'',
            snd (approvePending config (env\<lparr>writeFileSync := Written\<rparr>) f (toString_hex 8 v)))"
  using assms toString_hex_no_prototype_name [of 8 v]
  by (simp add: approvePending_def Get_def Let_def save_def load_def)

theorem approvePending_twice_witness:
  "toString_hex 8 2817770011 = ''a7f3c21b'' \<and>
   pending (load (Document \<lparr>pending = [''a7f3c21b'' \<mapsto>
        \<lparr>p_nonce = ''a7f3c21b'', p_paramsHash = ''44136fa355b3678a'', p_toolName = ''gateway'',
         p_params = [(''action'', JString ''restart'')], p_createdAt = 1000,
         p_expiresAt = 301000\<rparr>], approved = Map.empty\<rparr>)) ''a7f3c21b'' =
     Some \<lparr>p_nonce = ''a7f3c21b'', p_paramsHash = ''44136fa355b3678a'', p_toolName = ''gateway'',
         p_params = [(''action'', JString ''restart'')], p_createdAt = 1000,
         p_expiresAt = 301000\<rparr> \<and>
   \<not> (60000 :: int) > 301000 \<and>
   fst (approvePending default_config
     \<lparr>Date_now = (\<lambda>k. 60000), randomBytes = 0, writeFileSync = Written\<rparr>
     (Document \<lparr>pending = [''a7f3c21b'' \<mapsto>
        \<lparr>p_nonce = ''a7f3c21b'', p_paramsHash = ''44136fa355b3678a'', p_toolName = ''gateway'',
         p_params = [(''action'', JString ''restart'')], p_createdAt = 1000,
         p_expiresAt = 301000\<rparr>], approved = Map.empty\<rparr>) ''a7f3c21b'') = Ok 30 \<and>
   fst (approvePending default_config
     \<lparr>Date_now = (\<lambda>k. 60001), randomBytes = 0, writeFileSync = Written\<rparr>
     (snd (approvePending default_config
       \<lparr>Date_now = (\<lambda>k. 60000), randomBytes = 0, writeFileSync = Written\<rparr>
       (Document \<lparr>pending = [''a7f3c21b'' \<mapsto>
          \<lparr>p_nonce = ''a7f3c21b'', p_paramsHash = ''44136fa355b3678a'', p_toolName = ''gateway'',
           p_params = [(''action'', JString ''restart'')], p_createdAt = 1000,
           p_expiresAt = 301000\<rparr>], approved = Map.empty\<rparr>) ''a7f3c21b''))
     ''a7f3c21b'') = Failed ''Nonce not found or already used''"
proof -
  have hex: "toString_hex 8 2817770011 = ''a7f3c21b''"
    by (simp add: toString_hex_numeral hex_digit_def)
  from approvePending_twice
    [of "Document \<lparr>pending = [''a7f3c21b'' \<mapsto>
          \<lparr>p_nonce = ''a7f3c21b'', p_paramsHash = ''44136fa355b3678a'', p_toolName = ''gateway'',
           p_params = [(''action'', JString ''restart'')], p_createdAt = 1000,
           p_expiresAt = 301000\<rparr>], approved = Map.empty\<rparr>"
        2817770011
        "\<lparr>p_nonce = ''a7f3c21b'', p_paramsHash = ''44136fa355b3678a'', p_toolName = ''gateway'',
           p_params = [(''action'', JString ''restart'')], p_createdAt = 1000,
           p_expiresAt = 301000\<rparr>"
        "\<lparr>Date_now = (\<lambda>k. 60000), randomBytes = 0, writeFileSync = Written\<rparr>"
        default_config
        "\<lparr>Date_now = (\<lambda>k. 60001), randomBytes = 0, writeFileSync = Written\<rparr>"]
  show ?thesis
    by (simp add: hex load_def default_config_fields)
qed

text \<open>
  C6. A \<^verbatim>\<open>PendingEscalation\<close> whose deadline has passed fails approval with the expiry
  error, and the state saved is the state without it (the approved actions as they
  were); an \<^verbatim>\<open>ApprovedAction\<close> whose deadline has passed makes \<^verbatim>\<open>consumeApproval\<close> return
  \<^verbatim>\<open>null\<close>, and the state saved is the state without it.
\<close>

theorem expired_records_are_refused_and_deleted:
  "(pending (load f) nonce = Some p \<and> Date_now env 0 > p_expiresAt p \<longrightarrow>
      approvePending config env f nonce =
        (Failed ''Escalation expired. Please retry the original action.'',
         save env ((load f)\<lparr>pending := (pending (load f))(nonce := None)\<rparr>))) \<and>
   (approved (load f) paramsHash = Some a \<and> Date_now env 0 > a_expiresAt a \<longrightarrow>
      consumeApproval env f paramsHash =
        (None, save env ((load f)\<lparr>approved := (approved (load f))(paramsHash := None)\<rparr>)))"
  by (simp add: approvePending_def consumeApproval_def Get_def Let_def)

theorem expired_records_are_refused_and_deleted_witness:
  "pending (load (Document \<lparr>pending = [''a7f3c21b'' \<mapsto>
        \<lparr>p_nonce = ''a7f3c21b'', p_paramsHash = ''44136fa355b3678a'', p_toolName = ''gateway'',
         p_params = [(''action'', JString ''restart'')], p_createdAt = 1000,
         p_expiresAt = 301000\<rparr>],
      approved = [''44136fa355b3678a'' \<mapsto>
        \<lparr>a_nonce = ''0badcafe'', a_paramsHash = Some ''44136fa355b3678a'',
         a_toolName = Some ''exec'', a_approvedAt = 5000, a_expiresAt = 35000\<rparr>]\<rparr>))
     ''a7f3c21b'' =
     Some \<lparr>p_nonce = ''a7f3c21b'', p_paramsHash = ''44136fa355b3678a'', p_toolName = ''gateway'',
         p_params = [(''action'', JString ''restart'')], p_createdAt = 1000,
         p_expiresAt = 301000\<rparr> \<and>
   (301001 :: int) > 301000 \<and> (301001 :: int) > 35000 \<and>
   approvePending default_config
     \<lparr>Date_now = (\<lambda>k. 301001), randomBytes = 0, writeFileSync = Written\<rparr>
     (Document \<lparr>pending = [''a7f3c21b'' \<mapsto>
        \<lparr>p_nonce = ''a7f3c21b'', p_paramsHash = ''44136fa355b3678a'', p_toolName = ''gateway'',
         p_params = [(''action'', JString ''restart'')], p_createdAt = 1000,
         p_expiresAt = 301000\<rparr>],
      approved = [''44136fa355b3678a'' \<mapsto>
        \<lparr>a_nonce = ''0badcafe'', a_paramsHash = Some ''44136fa355b3678a'',
         a_toolName = Some ''exec'', a_approvedAt = 5000, a_expiresAt = 35000\<rparr>]\<rparr>)
     ''a7f3c21b'' =
     (Failed ''Escalation expired. Please retry the original action.'',
      Document \<lparr>pending = Map.empty,
      approved = [''44136fa355b3678a'' \<mapsto>
        \<lparr>a_nonce = ''0badcafe'', a_paramsHash = Some ''44136fa355b3678a'',
         a_toolName = Some ''exec'', a_approvedAt = 5000, a_expiresAt = 35000\<rparr>]\<rparr>) \<and>
   consumeApproval
     \<lparr>Date_now = (\<lambda>k. 301001), randomBytes = 0, writeFileSync = Written\<rparr>
     (Document \<lparr>pending = [''a7f3c21b'' \<mapsto>
        \<lparr>p_nonce = ''a7f3c21b'', p_paramsHash = ''44136fa355b3678a'', p_toolName = ''gateway'',
         p_params = [(''action'', JString ''restart'')], p_createdAt = 1000,
         p_expiresAt = 301000\<rparr>],
      approved = [''44136fa355b3678a'' \<mapsto>
        \<lparr>a_nonce = ''0badcafe'', a_paramsHash = Some ''44136fa355b3678a'',
         a_toolName = Some ''exec'', a_approvedAt = 5000, a_expiresAt = 35000\<rparr>]\<rparr>)
     ''44136fa355b3678a'' =
     (None,
      Document \<lparr>pending = [''a7f3c21b'' \<mapsto>
        \<lparr>p_nonce = ''a7f3c21b'', p_paramsHash = ''44136fa355b3678a'', p_toolName = ''gateway'',
         p_params = [(''action'', JString ''restart'')], p_createdAt = 1000,
         p_expiresAt = 301000\<rparr>],
      approved = Map.empty\<rparr>)"
  using expired_records_are_refused_and_deleted
    [of "Document \<lparr>pending = [''a7f3c21b'' \<mapsto>
        \<lparr>p_nonce = ''a7f3c21b'', p_paramsHash = ''44136fa355b3678a'', p_toolName = ''gateway'',
         p_params = [(''action'', JString ''restart'')], p_createdAt = 1000,
         p_expiresAt = 301000\<rparr>],
      approved = [''44136fa355b3678a'' \<mapsto>
        \<lparr>a_nonce = ''0badcafe'', a_paramsHash = Some ''44136fa355b3678a'',
         a_toolName = Some ''exec'', a_approvedAt = 5000, a_expiresAt = 35000\<rparr>]\<rparr>"
      "''a7f3c21b''"
      "\<lparr>p_nonce = ''a7f3c21b'', p_paramsHash = ''44136fa355b3678a'', p_toolName = ''gateway'',
         p_params = [(''action'', JString ''restart'')], p_createdAt = 1000,
         p_expiresAt = 301000\<rparr>"
      "\<lparr>Date_now = (\<lambda>k. 301001), randomBytes = 0, writeFileSync = Written\<rparr>"
      default_config
      "''44136fa355b3678a''"
      "\<lparr>a_nonce = ''0badcafe'', a_paramsHash = Some ''44136fa355b3678a'',
         a_toolName = Some ''exec'', a_approvedAt = 5000, a_expiresAt = 35000\<rparr>"]
  by (simp add: load_def save_def)

text \<open>
  C10. A successful approval returns \<open>round (approvalWindowMs / 1000)\<close>, whatever the
  file, the nonce and the clock are. When the nonce is that of a pending record (whose
  fingerprint, as every fingerprint, is not \<^verbatim>\<open>__proto__\<close>) the state saved has the
  record moved to an \<^verbatim>\<open>ApprovedAction\<close> that expires \<open>approvalWindowMs\<close> after the reading
  of the clock at that point; and every \<^verbatim>\<open>ApprovedAction\<close> a successful approval adds
  to the file expires then.
\<close>

theorem approvePending_window:
  assumes "approvePending config env f nonce = (Ok w, f')"
  shows "w = round (real_of_int (store_approvalWindowMs config) / 1000) \<and>
         (\<forall>p. pending (load f) nonce = Some p \<and> p_paramsHash p \<noteq> ''__proto__'' \<longrightarrow>
            f' = save env ((load f)\<lparr>
                  pending := (pending (load f))(nonce := None),
                  approved := (approved (load f))(p_paramsHash p \<mapsto>
                    \<lparr>a_nonce = nonce,
                     a_paramsHash = Some (p_paramsHash p),
                     a_toolName = Some (p_toolName p),
                     a_approvedAt = Date_now env 1,
                     a_expiresAt = Date_now env 2 + store_approvalWindowMs config\<rparr>)\<rparr>)) \<and>
         (\<forall>key a. writeFileSync env = Written \<and>
            approved (load f') key = Some a \<and> approved (load f) key \<noteq> Some a \<longrightarrow>
            a_expiresAt a = Date_now env 2 + store_approvalWindowMs config)"
  using assms
  by (auto simp: approvePending_def Get_def Let_def Set_property_def save_def load_def
      split: option.splits if_splits)

theorem approvePending_window_witness:
  "approvePending default_config
     \<lparr>Date_now = (\<lambda>k. 60000 + int k), randomBytes = 0, writeFileSync = Written\<rparr>
     (Document \<lparr>pending = [''a7f3c21b'' \<mapsto>
        \<lparr>p_nonce = ''a7f3c21b'', p_paramsHash = ''44136fa355b3678a'', p_toolName = ''gateway'',
         p_params = [(''action'', JString ''restart'')], p_createdAt = 1000,
         p_expiresAt = 301000\<rparr>], approved = Map.empty\<rparr>)
     ''a7f3c21b'' =
   (Ok 30,
    Document \<lparr>pending = Map.empty,
      approved = [''44136fa355b3678a'' \<mapsto>
        \<lparr>a_nonce = ''a7f3c21b'', a_paramsHash = Some ''44136fa355b3678a'',
         a_toolName = Some ''gateway'', a_approvedAt = 60001, a_expiresAt = 90002\<rparr>]\<rparr>) \<and>
   (30 :: int) = round (real_of_int (store_approvalWindowMs default_config) / 1000)"
proof -
  have run: "approvePending default_config
     \<lparr>Date_now = (\<lambda>k. 60000 + int k), randomBytes = 0, writeFileSync = Written\<rparr>
     (Document \<lparr>pending = [''a7f3c21b'' \<mapsto>
        \<lparr>p_nonce = ''a7f3c21b'', p_paramsHash = ''44136fa355b3678a'', p_toolName = ''gateway'',
         p_params = [(''action'', JString ''restart'')], p_createdAt = 1000,
         p_expiresAt = 301000\<rparr>], approved = Map.empty\<rparr>)
     ''a7f3c21b'' =
   (Ok 30,
    Document \<lparr>pending = Map.empty,
      approved = [''44136fa355b3678a'' \<mapsto>
        \<lparr>a_nonce = ''a7f3c21b'', a_paramsHash = Some ''44136fa355b3678a'',
         a_toolName = Some ''gateway'', a_approvedAt = 60001, a_expiresAt = 90002\<rparr>]\<rparr>)"
    by (simp add: approvePending_def default_config_fields save_def load_def Get_def
        Set_property_def Let_def)
  from approvePending_window [OF run] show ?thesis
    by (simp add: run)
qed

subsection \<open>The evaluator\<close>

text \<open>
  Bounds through the option monad, one rule for each construct of the source: a value
  that is returned is at least 1 when every step keeps it so.
\<close>

lemma lb_bind_str:
  "(\<And>x. pred_option P (f x)) \<Longrightarrow> pred_option P ((m :: string option) \<bind> f)"
  by (cases m) simp_all

lemma lb_bind_int:
  "pred_option (\<lambda>x. 1 \<le> x) m \<Longrightarrow> (\<And>x. 1 \<le> x \<Longrightarrow> pred_option P (f x))
     \<Longrightarrow> pred_option P ((m :: int option) \<bind> f)"
  by (cases m) simp_all

lemma lb_if: "pred_option P a \<Longrightarrow> pred_option P b \<Longrightarrow> pred_option P (if c then a else b)"
  by simp

lemma lb_Some: "P x \<Longrightarrow> pred_option P (Some x)"
  by simp

lemma lb_Let:
  "1 \<le> a \<Longrightarrow> (\<And>x. 1 \<le> x \<Longrightarrow> pred_option P (f x)) \<Longrightarrow> pred_option P (Let (a :: int) f)"
  by simp

lemma ge_if_add: "(1::int) \<le> b \<Longrightarrow> 1 \<le> (if c then b + numeral n else b)"
  by (simp add: add_increasing2)

lemma ge_if_add1: "(1::int) \<le> b \<Longrightarrow> 1 \<le> (if c then b + 1 else b)"
  by simp

lemma ge_if: "(1::int) \<le> a \<Longrightarrow> 1 \<le> b \<Longrightarrow> 1 \<le> (if c then a else b)"
  by simp

lemma ge_Let: "(1::int) \<le> a \<Longrightarrow> (\<And>x. 1 \<le> x \<Longrightarrow> 1 \<le> f x) \<Longrightarrow> 1 \<le> Let (a :: int) f"
  by simp

lemma ge_add: "(1::int) \<le> b \<Longrightarrow> 1 \<le> b + numeral n"
  by (simp add: add_increasing2)

lemma ge_add1: "(1::int) \<le> b \<Longrightarrow> 1 \<le> b + 1"
  by simp

lemma ge_case_option:
  "(1::int) \<le> a \<Longrightarrow> (\<And>x. 1 \<le> f x) \<Longrightarrow> 1 \<le> (case v of None \<Rightarrow> a | Some x \<Rightarrow> f x)"
  by (cases v) simp_all

lemma ge_case_prod: "(\<And>a b. (1::int) \<le> f a b) \<Longrightarrow> 1 \<le> (case p of (a, b) \<Rightarrow> f a b)"
  by (cases p) simp

lemma ge_case_json:
  "(1::int) \<le> a \<Longrightarrow> (\<And>x. 1 \<le> b x) \<Longrightarrow> (\<And>x. 1 \<le> c x) \<Longrightarrow> (\<And>x. 1 \<le> d x)
     \<Longrightarrow> (\<And>x. 1 \<le> e x) \<Longrightarrow> (\<And>x. 1 \<le> g x)
     \<Longrightarrow> 1 \<le> (case v of JNull \<Rightarrow> a | JBool x \<Rightarrow> b x | JNumber x \<Rightarrow> c x | JString x \<Rightarrow> d x
                | JArray x \<Rightarrow> e x | JObject x \<Rightarrow> g x)"
  by (cases v) simp_all

lemmas lb_rules =
  lb_bind_str lb_bind_int lb_Let lb_if lb_Some
  ge_Let ge_if_add ge_if_add1 ge_if ge_add ge_add1 ge_case_option ge_case_prod ge_case_json

lemma assessStakes_pred: "pred_option (\<lambda>s. 1 \<le> s \<and> s \<le> 10) (assessStakes rx toolName params)"
  unfolding assessStakes_def
  by (intro lb_rules) simp_all

lemma assessClarity_pred: "pred_option (\<lambda>c. 1 \<le> c \<and> c \<le> 10) (assessClarity rx toolName params)"
  unfolding assessClarity_def
  by (intro lb_rules) simp_all


text \<open>No conversion throws when every parameter value converts.\<close>

lemma tot_bind: "m \<noteq> None \<Longrightarrow> (\<And>x. f x \<noteq> None) \<Longrightarrow> m \<bind> f \<noteq> None"
  by (cases m) simp_all

lemma tot_if: "a \<noteq> None \<Longrightarrow> b \<noteq> None \<Longrightarrow> (if c then a else b) \<noteq> None"
  by simp

lemma tot_Some: "Some x \<noteq> None"
  by simp

lemma tot_Let: "(\<And>x. f x \<noteq> None) \<Longrightarrow> Let a f \<noteq> None"
  by simp

lemma tot_case_option:
  "a \<noteq> None \<Longrightarrow> (\<And>x. v = Some x \<Longrightarrow> f x \<noteq> None)
     \<Longrightarrow> (case v of None \<Rightarrow> a | Some x \<Rightarrow> f x) \<noteq> None"
  by (cases v) simp_all

lemmas tot_rules = tot_bind tot_Let tot_if tot_Some tot_case_option

lemma String_or_empty_total:
  "(\<And>v. x = Some v \<Longrightarrow> js_String v \<noteq> None) \<Longrightarrow> String_or_empty x \<noteq> None"
  by (cases x) (simp_all add: String_or_empty_def)

lemma js_or_cases: "js_or a b = a \<or> js_or a b = b"
  by (simp add: js_or_def split: option.splits)

lemma params_convert_js_or:
  assumes "js_or (map_of params j) (map_of params k) = Some v"
    and "\<And>k v. map_of params k = Some v \<Longrightarrow> js_String v \<noteq> None"
  shows "js_String v \<noteq> None"
  using assms js_or_cases [of "map_of params j" "map_of params k"] by metis

lemma params_convert_js_or3:
  assumes "js_or (js_or (map_of params i) (map_of params j)) (map_of params k) = Some v"
    and "\<And>k v. map_of params k = Some v \<Longrightarrow> js_String v \<noteq> None"
  shows "js_String v \<noteq> None"
  using assms js_or_cases [of "map_of params i" "map_of params j"]
    js_or_cases [of "js_or (map_of params i) (map_of params j)" "map_of params k"] by metis

lemma assessClarity_total:
  assumes "\<And>k v. map_of params k = Some v \<Longrightarrow> js_String v \<noteq> None"
  shows "assessClarity rx toolName params \<noteq> None"
  unfolding assessClarity_def
  by (intro tot_rules String_or_empty_total) (erule assms)+

lemma assessStakes_total:
  assumes "\<And>k v. map_of params k = Some v \<Longrightarrow> js_String v \<noteq> None"
  shows "assessStakes rx toolName params \<noteq> None"
  unfolding assessStakes_def
  by (intro tot_rules String_or_empty_total) (erule assms | (erule params_convert_js_or, erule assms))+

lemma checkIntrinsicEvil_total:
  assumes "\<And>k v. map_of params k = Some v \<Longrightarrow> js_String v \<noteq> None"
  shows "checkIntrinsicEvil rx toolName params \<noteq> None"
  unfolding checkIntrinsicEvil_def
  by (intro tot_rules String_or_empty_total) (erule assms)+

lemma buildEscalationReason_total:
  assumes "\<And>k v. map_of params k = Some v \<Longrightarrow> js_String v \<noteq> None"
  shows "buildEscalationReason rx toolName params clarity stakes score \<noteq> None"
  unfolding buildEscalationReason_def
  by (intro tot_rules String_or_empty_total)
     (erule assms | (erule params_convert_js_or3, erule assms))+


lemma score_range:
  "(1::int) \<le> c \<Longrightarrow> c \<le> 10 \<Longrightarrow> 1 \<le> s \<Longrightarrow> s \<le> 10 \<Longrightarrow> 1 \<le> c * s \<and> c * s \<le> 100"
  using mult_mono [of 1 c 1 s] mult_mono [of c 10 s 10] by simp

text \<open>
  C7, as the spec states it, fails: a parameter that \<^verbatim>\<open>String(...)\<close> cannot convert makes
  the scorers throw, here \<^verbatim>\<open>{ action: { toString: 1 } }\<close> for the tool \<^verbatim>\<open>gateway\<close>, which
  the intrinsic-evil check lets through.
\<close>

theorem scorers_throw_on_unconvertible_parameter:
  "checkIntrinsicEvil (\<lambda>pattern s. None) ''gateway''
     [(''action'', JObject [(''toString'', JNumber 1)])] = Some None \<and>
   assessClarity (\<lambda>pattern s. None) ''gateway''
     [(''action'', JObject [(''toString'', JNumber 1)])] = None \<and>
   assessStakes (\<lambda>pattern s. None) ''gateway''
     [(''action'', JObject [(''toString'', JNumber 1)])] = None \<and>
   evaluate (\<lambda>pattern s. None) ''gateway''
     [(''action'', JObject [(''toString'', JNumber 1)])] default_config = ([], None)"
  by (simp add: evaluate_def checkIntrinsicEvil_def assessClarity_def assessStakes_def
      String_or_empty_def INFRASTRUCTURE_TOOLS_def EXTERNAL_EFFECT_TOOLS_def)

text \<open>
  C7, amended. Whenever \<^verbatim>\<open>assessClarity\<close> or \<^verbatim>\<open>assessStakes\<close> returns, it returns an
  integer from 1 to 10. When every parameter value converts to a string, both return,
  the score is from 1 to 100, and if the intrinsic-evil check returns \<^verbatim>\<open>null\<close> then
  \<^verbatim>\<open>evaluate\<close> returns \<^verbatim>\<open>escalate\<close> (with these scores) when the score is at least the
  configured threshold, and \<^verbatim>\<open>allow\<close> otherwise.
\<close>

theorem scores_in_range_and_threshold_decides:
  "(\<forall>c. assessClarity rx toolName params = Some c \<longrightarrow> 1 \<le> c \<and> c \<le> 10) \<and>
   (\<forall>s. assessStakes rx toolName params = Some s \<longrightarrow> 1 \<le> s \<and> s \<le> 10) \<and>
   ((\<forall>k v. map_of params k = Some v \<longrightarrow> js_String v \<noteq> None) \<longrightarrow>
      (\<exists>c s. assessClarity rx toolName params = Some c \<and>
             assessStakes rx toolName params = Some s \<and>
             1 \<le> c * s \<and> c * s \<le> 100 \<and>
             (checkIntrinsicEvil rx toolName params = Some None \<longrightarrow>
                (if c * s \<ge> (case escalationThreshold config of
                                 Some t \<Rightarrow> t | None \<Rightarrow> DEFAULT_ESCALATION_THRESHOLD)
                 then \<exists>reason. snd (evaluate rx toolName params config) =
                        Some (Escalate reason c s)
                 else snd (evaluate rx toolName params config) = Some (Allow c s)))))"
proof (intro conjI allI impI)
  fix c assume "assessClarity rx toolName params = Some c"
  with assessClarity_pred [of rx toolName params] show "1 \<le> c" "c \<le> 10"
    by simp_all
next
  fix s assume "assessStakes rx toolName params = Some s"
  with assessStakes_pred [of rx toolName params] show "1 \<le> s" "s \<le> 10"
    by simp_all
next
  assume conv: "\<forall>k v. map_of params k = Some v \<longrightarrow> js_String v \<noteq> None"
  then obtain c s reason where c: "assessClarity rx toolName params = Some c"
    and s: "assessStakes rx toolName params = Some s"
    and reason: "buildEscalationReason rx toolName params c s (c * s) = Some reason"
    using assessClarity_total [of params rx toolName] assessStakes_total [of params rx toolName]
      buildEscalationReason_total [of params rx toolName]
    by (metis not_None_eq)
  from c s assessClarity_pred [of rx toolName params] assessStakes_pred [of rx toolName params]
  have range: "1 \<le> c * s \<and> c * s \<le> 100"
    by (simp add: score_range)
  have "checkIntrinsicEvil rx toolName params = Some None \<longrightarrow>
          (if c * s \<ge> (case escalationThreshold config of
                           Some t \<Rightarrow> t | None \<Rightarrow> DEFAULT_ESCALATION_THRESHOLD)
           then \<exists>reason. snd (evaluate rx toolName params config) = Some (Escalate reason c s)
           else snd (evaluate rx toolName params config) = Some (Allow c s))"
    by (simp add: evaluate_def c s reason Let_def)
  with c s range
  show "\<exists>c s. assessClarity rx toolName params = Some c \<and>
             assessStakes rx toolName params = Some s \<and>
             1 \<le> c * s \<and> c * s \<le> 100 \<and>
             (checkIntrinsicEvil rx toolName params = Some None \<longrightarrow>
                (if c * s \<ge> (case escalationThreshold config of
                                 Some t \<Rightarrow> t | None \<Rightarrow> DEFAULT_ESCALATION_THRESHOLD)
                 then \<exists>reason. snd (evaluate rx toolName params config) =
                        Some (Escalate reason c s)
                 else snd (evaluate rx toolName params config) = Some (Allow c s)))"
    by blast
qed

text \<open>The spec's configuration change: both scores are 9.\<close>

lemma clarity_gateway:
  "assessClarity rx ''gateway''
     [(''action'', JString ''config.apply''), (''raw'', JString ''defaultModel'')] = Some 9"
  by (simp add: assessClarity_def String_or_empty_def INFRASTRUCTURE_TOOLS_def
      EXTERNAL_EFFECT_TOOLS_def)

lemma stakes_gateway:
  "assessStakes rx ''gateway''
     [(''action'', JString ''config.apply''), (''raw'', JString ''defaultModel'')] = Some 9"
  by (simp add: assessStakes_def String_or_empty_def INFRASTRUCTURE_TOOLS_def js_or_def)

lemma reason_gateway:
  "buildEscalationReason rx ''gateway''
     [(''action'', JString ''config.apply''), (''raw'', JString ''defaultModel'')] 9 9 81 =
   Some (''Action: gateway | Risk score: 81 (clarity=9, stakes=9) | '' @
         ''This modifies OpenClaw configuration'')"
  by (simp add: buildEscalationReason_def String_or_empty_def js_or_def Number_toString_def
      Number_toString_nat.simps)

lemma evaluate_gateway:
  "evaluate rx ''gateway''
     [(''action'', JString ''config.apply''), (''raw'', JString ''defaultModel'')] default_config =
   ([(LogDebug, ''[GA] gateway: clarity=9 stakes=9 score=81 threshold=36'')],
    Some (Escalate (''Action: gateway | Risk score: 81 (clarity=9, stakes=9) | '' @
                    ''This modifies OpenClaw configuration'') 9 9))"
  by (simp add: evaluate_def checkIntrinsicEvil_def clarity_gateway stakes_gateway
      reason_gateway default_config_fields DEFAULT_ESCALATION_THRESHOLD_def Number_toString_def
      Number_toString_nat.simps)

theorem scores_in_range_and_threshold_decides_witness:
  "list_all (\<lambda>(k, v). js_String v \<noteq> None)
     [(''action'', JString ''config.apply''), (''raw'', JString ''defaultModel'')] \<and>
   checkIntrinsicEvil (\<lambda>pattern s. None) ''gateway''
     [(''action'', JString ''config.apply''), (''raw'', JString ''defaultModel'')] = Some None \<and>
   assessClarity (\<lambda>pattern s. None) ''gateway''
     [(''action'', JString ''config.apply''), (''raw'', JString ''defaultModel'')] = Some 9 \<and>
   assessStakes (\<lambda>pattern s. None) ''gateway''
     [(''action'', JString ''config.apply''), (''raw'', JString ''defaultModel'')] = Some 9 \<and>
   (36 :: int) \<le> 9 * 9 \<and>
   snd (evaluate (\<lambda>pattern s. None) ''gateway''
     [(''action'', JString ''config.apply''), (''raw'', JString ''defaultModel'')]
     default_config) =
     Some (Escalate (''Action: gateway | Risk score: 81 (clarity=9, stakes=9) | '' @
                     ''This modifies OpenClaw configuration'') 9 9) \<and>
   \<not> (82 :: int) \<le> 9 * 9 \<and>
   snd (evaluate (\<lambda>pattern s. None) ''gateway''
     [(''action'', JString ''config.apply''), (''raw'', JString ''defaultModel'')]
     (default_config\<lparr>escalationThreshold := Some 82\<rparr>)) = Some (Allow 9 9)"
  using scores_in_range_and_threshold_decides
      [of "\<lambda>pattern s. None" "''gateway''"
          "[(''action'', JString ''config.apply''), (''raw'', JString ''defaultModel'')]"
          "default_config\<lparr>escalationThreshold := Some 82\<rparr>"]
    evaluate_gateway [of "\<lambda>pattern s. None"]
  by (simp add: clarity_gateway stakes_gateway checkIntrinsicEvil_def)

lemma checkImagePromptContent_block_reason:
  "checkImagePromptContent rx prompt = Some (True, reason) \<Longrightarrow>
     \<exists>category. reason = ''Image request contains '' @ category @ '' (violation of dignity)''"
  by (auto simp: checkImagePromptContent_def split: option.splits prod.splits)

lemma promptContentCheck_block_reason:
  "promptContentCheck rx cmd = Some (True, reason) \<Longrightarrow>
     \<exists>category. reason = ''Image request contains '' @ category @ '' (violation of dignity)''"
  by (auto simp: promptContentCheck_def dest: checkImagePromptContent_block_reason
      split: option.splits if_splits)

text \<open>
  C9. When the lower-cased text of the command of an \<^verbatim>\<open>exec\<close> call contains
  \<^verbatim>\<open>rm -rf /tmp\<close>, \<^verbatim>\<open>checkIntrinsicEvil\<close> does not return the root-filesystem reason,
  whatever else the command contains.
\<close>

theorem checkIntrinsicEvil_tmp_shields_root:
  assumes "String_or_empty (map_of params ''command'') = Some cmd"
    and "js_includes (toLowerCase cmd) ''rm -rf /tmp''"
  shows "checkIntrinsicEvil rx ''exec'' params \<noteq> Some (Some ''Command would destroy root filesystem'')"
  using assms
  by (auto simp: checkIntrinsicEvil_def Let_def dest!: promptContentCheck_block_reason
      split: option.splits prod.splits if_splits)

text \<open>
  The compound command \<^verbatim>\<open>rm -rf /tmp/x; rm -rf /\<close> deletes the root file system and is
  not blocked: the check returns \<^verbatim>\<open>null\<close>.
\<close>

theorem checkIntrinsicEvil_tmp_shields_root_witness:
  "String_or_empty (map_of [(''command'', JString ''rm -rf /tmp/x; rm -rf /'')] ''command'')
     = Some ''rm -rf /tmp/x; rm -rf /'' \<and>
   js_includes (toLowerCase ''rm -rf /tmp/x; rm -rf /'') ''rm -rf /'' \<and>
   js_includes (toLowerCase ''rm -rf /tmp/x; rm -rf /'') ''rm -rf /tmp'' \<and>
   checkIntrinsicEvil (\<lambda>pattern s. None) ''exec'' [(''command'', JString ''rm -rf /tmp/x; rm -rf /'')]
     \<noteq> Some (Some ''Command would destroy root filesystem'') \<and>
   checkIntrinsicEvil (\<lambda>pattern s. None) ''exec'' [(''command'', JString ''rm -rf /tmp/x; rm -rf /'')]
     = Some None"
proof -
  have low: "toLowerCase ''rm -rf /tmp/x; rm -rf /'' = ''rm -rf /tmp/x; rm -rf /''"
    by (simp add: toLowerCase_def upper_case_letters_def lower_case_letters_def)
  have img: "\<not> isImageGenerationCommand ''rm -rf /tmp/x; rm -rf /''"
    by (simp add: isImageGenerationCommand_def low IMAGE_GEN_PATTERNS_def)
  show ?thesis
    using checkIntrinsicEvil_tmp_shields_root
      [of "[(''command'', JString ''rm -rf /tmp/x; rm -rf /'')]" "''rm -rf /tmp/x; rm -rf /''"
          "\<lambda>pattern s. None"]
    by (simp add: String_or_empty_def checkIntrinsicEvil_def low img)
qed

subsection \<open>The gate\<close>

text \<open>
  C2 (the code departs from it). The handler reads \<^verbatim>\<open>config.neverBlock || []\<close>: with no
  \<^verbatim>\<open>neverBlock\<close> in the configuration nothing is exempt, and \<^verbatim>\<open>DEFAULT_NEVER_BLOCK\<close> is
  used nowhere. On a fresh store a call of \<^verbatim>\<open>memory_search\<close> is allowed, but by the
  evaluator, whose message is logged; with the threshold set to 1 and still no
  \<^verbatim>\<open>neverBlock\<close>, the same call is escalated.
\<close>

theorem default_config_exempts_nothing:
  "createBeforeToolCallHandler default_config sha256 rx env1 env2 Missing ''memory_search'' params =
     (Some Allowed, Missing,
      [(LogDebug, ''[GA] memory_search: clarity=1 stakes=1 score=1 threshold=36''),
       (LogDebug, ''[GA] memory_search: virtues aligned (score=1), allowing'')]) \<and>
   fst (createBeforeToolCallHandler (default_config\<lparr>escalationThreshold := Some 1\<rparr>)
          sha256 rx env1 env2 Missing ''memory_search'' params) =
     Some (Blocked (''GUARDIAN_ANGEL_ESCALATE|'' @ toString_hex 8 (unat (randomBytes env2)) @
       ''|Action: memory_search | Risk score: 1 (clarity=1, stakes=1)''))"
  using hashParams_no_prototype_name [of sha256 "''memory_search''" params]
  by (simp add: createBeforeToolCallHandler_def default_config_def escalate_def
      consumeApproval_def load_def Get_def createPending_def Let_def
      evaluate_def checkIntrinsicEvil_def assessClarity_def assessStakes_def
      buildEscalationReason_def INFRASTRUCTURE_TOOLS_def EXTERNAL_EFFECT_TOOLS_def
      DEFAULT_ESCALATION_THRESHOLD_def Number_toString_def Number_toString_nat.simps)

text \<open>
  A tool that the configuration lists in \<^verbatim>\<open>neverBlock\<close> is allowed whatever its
  parameters, the store and the evaluator's patterns are; the store is not read and
  nothing but the exemption is logged.
\<close>

theorem neverBlock_exempts:
  assumes "enabled config \<noteq> Some False" and "neverBlock config = Some l" and "toolName \<in> set l"
  shows "createBeforeToolCallHandler config sha256 rx env1 env2 f toolName params =
           (Some Allowed, f, [(LogDebug, ''[GA] '' @ toolName @ '': exempt, allowing'')])"
  using assms by (simp add: createBeforeToolCallHandler_def)

theorem neverBlock_exempts_witness:
  "enabled (default_config\<lparr>neverBlock := Some DEFAULT_NEVER_BLOCK\<rparr>) \<noteq> Some False \<and>
   ''memory_search'' \<in> set DEFAULT_NEVER_BLOCK \<and>
   createBeforeToolCallHandler (default_config\<lparr>neverBlock := Some DEFAULT_NEVER_BLOCK\<rparr>)
     (\<lambda>s. 0) (\<lambda>pattern s. None)
     \<lparr>Date_now = (\<lambda>k. 1000), randomBytes = 0, writeFileSync = Written\<rparr>
     \<lparr>Date_now = (\<lambda>k. 1000), randomBytes = 0, writeFileSync = Written\<rparr>
     Missing ''memory_search'' [(''query'', JString ''rm -rf /'')] =
     (Some Allowed, Missing, [(LogDebug, ''[GA] memory_search: exempt, allowing'')])"
  using neverBlock_exempts
    [of "default_config\<lparr>neverBlock := Some DEFAULT_NEVER_BLOCK\<rparr>" DEFAULT_NEVER_BLOCK
        "''memory_search''" "\<lambda>s. 0" "\<lambda>pattern s. None"
        "\<lparr>Date_now = (\<lambda>k. 1000), randomBytes = 0, writeFileSync = Written\<rparr>"
        "\<lparr>Date_now = (\<lambda>k. 1000), randomBytes = 0, writeFileSync = Written\<rparr>"
        Missing "[(''query'', JString ''rm -rf /'')]"]
  by (simp add: default_config_def DEFAULT_NEVER_BLOCK_def)

text \<open>
  The first request of the spec's scenario and the request \<^verbatim>\<open>rm -rf /\<close> have one
  fingerprint.
\<close>

lemma one_fingerprint:
  "hashParams sha256 ''gateway''
     [(''action'', JString ''config.apply''), (''raw'', JString ''defaultModel'')] =
   hashParams sha256 ''exec'' [(''command'', JString ''rm -rf /'')]"
  by (rule hashParams_cong) (simp add: normalized_without_wrapper_keys Object_keys_def)

lemma gateway_call_escalates:
  "createBeforeToolCallHandler default_config sha256 rx env1
     \<lparr>Date_now = (\<lambda>k. 1000), randomBytes = 0xa7f3c21b, writeFileSync = Written\<rparr>
     Missing ''gateway''
     [(''action'', JString ''config.apply''), (''raw'', JString ''defaultModel'')] =
   (Some (Blocked (''GUARDIAN_ANGEL_ESCALATE|a7f3c21b|Action: gateway | '' @
            ''Risk score: 81 (clarity=9, stakes=9) | This modifies OpenClaw configuration'')),
    Document \<lparr>pending = [''a7f3c21b'' \<mapsto>
        \<lparr>p_nonce = ''a7f3c21b'',
         p_paramsHash = hashParams sha256 ''exec'' [(''command'', JString ''rm -rf /'')],
         p_toolName = ''gateway'',
         p_params = [(''action'', JString ''config.apply''), (''raw'', JString ''defaultModel'')],
         p_createdAt = 1000, p_expiresAt = 301000\<rparr>],
      approved = Map.empty\<rparr>,
    [(LogDebug, ''[GA] gateway: clarity=9 stakes=9 score=81 threshold=36''),
     (LogInfo, ''[GA] gateway: escalating (nonce: a7f3c21b)'')])"
  using hashParams_no_prototype_name [of sha256 "''exec''" "[(''command'', JString ''rm -rf /'')]"]
  by (simp add: createBeforeToolCallHandler_def escalate_def one_fingerprint evaluate_gateway
      default_config_fields consumeApproval_def createPending_def save_def load_def Get_def
      toString_hex_numeral hex_digit_def Let_def)

lemma approval_of_gateway_call:
  "approvePending default_config
     \<lparr>Date_now = (\<lambda>k. 60000), randomBytes = 0, writeFileSync = Written\<rparr>
     (Document \<lparr>pending = [''a7f3c21b'' \<mapsto>
        \<lparr>p_nonce = ''a7f3c21b'',
         p_paramsHash = hashParams sha256 ''exec'' [(''command'', JString ''rm -rf /'')],
         p_toolName = ''gateway'',
         p_params = [(''action'', JString ''config.apply''), (''raw'', JString ''defaultModel'')],
         p_createdAt = 1000, p_expiresAt = 301000\<rparr>],
      approved = Map.empty\<rparr>)
     ''a7f3c21b'' =
   (Ok 30,
    Document \<lparr>pending = Map.empty,
      approved = [hashParams sha256 ''exec'' [(''command'', JString ''rm -rf /'')] \<mapsto>
        \<lparr>a_nonce = ''a7f3c21b'',
         a_paramsHash = Some (hashParams sha256 ''exec'' [(''command'', JString ''rm -rf /'')]),
         a_toolName = Some ''gateway'', a_approvedAt = 60000, a_expiresAt = 90000\<rparr>]\<rparr>)"
  using hashParams_no_prototype_name [of sha256 "''exec''" "[(''command'', JString ''rm -rf /'')]"]
  by (auto simp: approvePending_def default_config_fields save_def load_def Get_def
      Set_property_def Object_prototype_names_def)

lemma rm_rf_root_call_is_allowed:
  "createBeforeToolCallHandler default_config sha256 rx
     \<lparr>Date_now = (\<lambda>k. 61000), randomBytes = 0, writeFileSync = Written\<rparr> env2
     (Document \<lparr>pending = Map.empty,
      approved = [hashParams sha256 ''exec'' [(''command'', JString ''rm -rf /'')] \<mapsto>
        \<lparr>a_nonce = ''a7f3c21b'',
         a_paramsHash = Some (hashParams sha256 ''exec'' [(''command'', JString ''rm -rf /'')]),
         a_toolName = Some ''gateway'', a_approvedAt = 60000, a_expiresAt = 90000\<rparr>]\<rparr>)
     ''exec'' [(''command'', JString ''rm -rf /'')] =
   (Some Allowed,
    Document \<lparr>pending = Map.empty, approved = Map.empty\<rparr>,
    [(LogInfo, ''[GA] exec: approved via nonce a7f3c21b'')])"
  by (simp add: createBeforeToolCallHandler_def default_config_fields consumeApproval_def
      save_def load_def Get_def nonce_text_def)

text \<open>
  C8 (the code departs from it). Under the default configuration, from a fresh store:
  the configuration change of the spec's scenario is escalated with the nonce
  \<^verbatim>\<open>a7f3c21b\<close>; the nonce is approved a minute later; a second after that the call
  \<^verbatim>\<open>exec\<close> with the command \<^verbatim>\<open>rm -rf /\<close> is allowed, by that approval: its fingerprint
  is the one of the configuration change (C1), and the approval is looked up before the
  evaluator runs.
\<close>

theorem approval_of_another_request_allows_rm_rf_root:
  "(let (r1, f1, l1) =
          createBeforeToolCallHandler default_config sha256 rx env1
            \<lparr>Date_now = (\<lambda>k. 1000), randomBytes = 0xa7f3c21b, writeFileSync = Written\<rparr>
            Missing ''gateway''
            [(''action'', JString ''config.apply''), (''raw'', JString ''defaultModel'')];
        (r2, f2) =
          approvePending default_config
            \<lparr>Date_now = (\<lambda>k. 60000), randomBytes = 0, writeFileSync = Written\<rparr>
            f1 ''a7f3c21b'';
        (r3, f3, l3) =
          createBeforeToolCallHandler default_config sha256 rx
            \<lparr>Date_now = (\<lambda>k. 61000), randomBytes = 0, writeFileSync = Written\<rparr>
            env2 f2 ''exec'' [(''command'', JString ''rm -rf /'')]
    in r1 = Some (Blocked (''GUARDIAN_ANGEL_ESCALATE|a7f3c21b|Action: gateway | '' @
                   ''Risk score: 81 (clarity=9, stakes=9) | This modifies OpenClaw configuration'')) \<and>
       r2 = Ok 30 \<and>
       r3 = Some Allowed \<and>
       l3 = [(LogInfo, ''[GA] exec: approved via nonce a7f3c21b'')])"
  by (simp only: gateway_call_escalates approval_of_gateway_call rm_rf_root_call_is_allowed
      Let_def prod.case)

text \<open>
  The call \<^verbatim>\<open>exec\<close> with the command \<^verbatim>\<open>rm -rf /\<close>, when the gate is enabled, the tool is
  in neither list of the configuration and no approved action is stored under the
  fingerprint of the request: the call is blocked with the root-filesystem reason, and
  the store file is left as it is.
\<close>

theorem rm_rf_root_blocked_without_approval:
  assumes "enabled config \<noteq> Some False"
    and "''exec'' \<notin> set (case neverBlock config of Some l \<Rightarrow> l | None \<Rightarrow> [])"
    and "''exec'' \<notin> set (case alwaysBlock config of Some l \<Rightarrow> l | None \<Rightarrow> [])"
    and "approved (load f) (hashParams sha256 ''exec'' params) = None"
    and "map_of params ''command'' = Some (JString ''rm -rf /'')"
  shows "createBeforeToolCallHandler config sha256 rx env1 env2 f ''exec'' params =
           (Some (Blocked ''GUARDIAN_ANGEL_BLOCK|Command would destroy root filesystem''), f,
            [(LogWarn, ''[GA] exec: BLOCKED (Command would destroy root filesystem)'')])"
proof -
  have low: "toLowerCase ''rm -rf /'' = ''rm -rf /''"
    by (simp add: toLowerCase_def upper_case_letters_def lower_case_letters_def)
  have "checkIntrinsicEvil rx ''exec'' params = Some (Some ''Command would destroy root filesystem'')"
    by (simp add: checkIntrinsicEvil_def assms(5) String_or_empty_def low)
  then have "evaluate rx ''exec'' params config =
               ([], Some (Block ''Command would destroy root filesystem''))"
    by (simp add: evaluate_def)
  with assms(1-4) hashParams_no_prototype_name [of sha256 "''exec''" params] show ?thesis
    by (auto simp: createBeforeToolCallHandler_def consumeApproval_def Get_def Let_def
        split: option.splits)
qed

theorem rm_rf_root_blocked_without_approval_witness:
  "enabled default_config \<noteq> Some False \<and>
   ''exec'' \<notin> set (case neverBlock default_config of Some l \<Rightarrow> l | None \<Rightarrow> []) \<and>
   ''exec'' \<notin> set (case alwaysBlock default_config of Some l \<Rightarrow> l | None \<Rightarrow> []) \<and>
   approved (load Missing)
     (hashParams (\<lambda>s. 0x44136fa355b3678a1146ad16f7e8649e94fb4fc21fe77e8310c060f61caaff8a)
        ''exec'' [(''command'', JString ''rm -rf /'')]) = None \<and>
   createBeforeToolCallHandler default_config
     (\<lambda>s. 0x44136fa355b3678a1146ad16f7e8649e94fb4fc21fe77e8310c060f61caaff8a)
     (\<lambda>pattern s. None)
     \<lparr>Date_now = (\<lambda>k. 1000), randomBytes = 0, writeFileSync = Written\<rparr>
     \<lparr>Date_now = (\<lambda>k. 1000), randomBytes = 0, writeFileSync = Written\<rparr>
     Missing ''exec'' [(''command'', JString ''rm -rf /'')] =
     (Some (Blocked ''GUARDIAN_ANGEL_BLOCK|Command would destroy root filesystem''), Missing,
      [(LogWarn, ''[GA] exec: BLOCKED (Command would destroy root filesystem)'')])"
  using rm_rf_root_blocked_without_approval
    [of default_config Missing
        "\<lambda>s. 0x44136fa355b3678a1146ad16f7e8649e94fb4fc21fe77e8310c060f61caaff8a"
        "[(''command'', JString ''rm -rf /'')]" "\<lambda>pattern s. None"
        "\<lparr>Date_now = (\<lambda>k. 1000), randomBytes = 0, writeFileSync = Written\<rparr>"
        "\<lparr>Date_now = (\<lambda>k. 1000), randomBytes = 0, writeFileSync = Written\<rparr>"]
  by (simp add: default_config_fields load_def)

end
